theory Spec2Isabelle
  imports Main "HOL-Library.Sublist"
begin

section \<open>The LVM snapshotter's command layer (snapshots/lvm/lvm.go)\<close>

text \<open>
  The source file holds two listings of package \<open>lvm\<close>. The first (lines 1--209) hands a
  \<open>sync.Mutex\<close> to every lifecycle operation as a parameter and formats a volume in a function of
  its own; the second (lines 210--407) keeps one package-level mutex that \<open>runCommand\<close> takes, and
  creates, activates and formats a volume in one operation. Functions of the first listing keep
  the source's names; functions of the second listing carry the suffix \<open>_2\<close>.

  A Go \<open>string\<close> is a sequence of bytes, and so is \<^typ>\<open>string\<close>.
\<close>

subsection \<open>Errors\<close>

text \<open>
  A Go \<open>error\<close> is \<open>nil\<close> or a value with a method \<open>Error()\<close>: \<^typ>\<open>'a option\<close> over the type
  below. The code looks at an error of \<open>CombinedOutput\<close> through \<open>Error()\<close> only, so such an error
  is its message. \<open>errors.Wrap\<close> of \<open>github.com/pkg/errors\<close> keeps the cause and puts a message in
  front of it; wrapping \<open>nil\<close> gives \<open>nil\<close>.
\<close>

datatype error = CmdError string | WithMessage error string

fun Error :: "error \<Rightarrow> string" where
  "Error (CmdError msg) = msg"
| "Error (WithMessage cause msg) = msg @ '': '' @ Error cause"

fun Wrap :: "error option \<Rightarrow> string \<Rightarrow> error option" where
  "Wrap None message = None"
| "Wrap (Some err) message = Some (WithMessage err message)"

subsection \<open>strings.TrimSpace and strings.Contains\<close>

text \<open>
  \<open>strings.TrimSpace\<close> removes, at both ends, every code point that \<open>unicode.IsSpace\<close> accepts: the
  six ASCII bytes below and the code points U+0085, U+00A0, U+1680, U+2000--U+200A, U+2028,
  U+2029, U+202F, U+205F and U+3000 in their UTF-8 encoding. A byte that does not start (or, at
  the right end, finish) such an encoding decodes to a code point that is no space, or to
  \<open>RuneError\<close>, and stops the trimming.
\<close>

definition asciiSpace :: "char \<Rightarrow> bool" where
  "asciiSpace c \<longleftrightarrow> c \<in> set [CHR 0x09, CHR 0x0A, CHR 0x0B, CHR 0x0C, CHR 0x0D, CHR 0x20]"

definition unicodeSpace :: "string list" where
  "unicodeSpace =
    [[CHR 0xC2, CHR 0x85], [CHR 0xC2, CHR 0xA0], [CHR 0xE1, CHR 0x9A, CHR 0x80],
     [CHR 0xE2, CHR 0x80, CHR 0x80], [CHR 0xE2, CHR 0x80, CHR 0x81],
     [CHR 0xE2, CHR 0x80, CHR 0x82], [CHR 0xE2, CHR 0x80, CHR 0x83],
     [CHR 0xE2, CHR 0x80, CHR 0x84], [CHR 0xE2, CHR 0x80, CHR 0x85],
     [CHR 0xE2, CHR 0x80, CHR 0x86], [CHR 0xE2, CHR 0x80, CHR 0x87],
     [CHR 0xE2, CHR 0x80, CHR 0x88], [CHR 0xE2, CHR 0x80, CHR 0x89],
     [CHR 0xE2, CHR 0x80, CHR 0x8A], [CHR 0xE2, CHR 0x80, CHR 0xA8],
     [CHR 0xE2, CHR 0x80, CHR 0xA9], [CHR 0xE2, CHR 0x80, CHR 0xAF],
     [CHR 0xE2, CHR 0x81, CHR 0x9F], [CHR 0xE3, CHR 0x80, CHR 0x80]]"

text \<open>The number of bytes of the space at the left end of the string, 0 when there is none.\<close>

definition spaceWidth :: "string \<Rightarrow> nat" where
  "spaceWidth s =
    (case s of
       [] \<Rightarrow> 0
     | c # cs \<Rightarrow>
         if asciiSpace c then 1
         else (case find (\<lambda>u. prefix u s) unicodeSpace of
                 None \<Rightarrow> 0
               | Some u \<Rightarrow> length u))"

function TrimLeft :: "string \<Rightarrow> string" where
  "TrimLeft s = (if spaceWidth s = 0 then s else TrimLeft (drop (spaceWidth s) s))"
  by pat_completeness auto
termination
proof (relation "measure length")
  show "wf (measure length)" by simp
next
  fix s :: string
  assume "spaceWidth s \<noteq> 0"
  moreover have "s \<noteq> []" using \<open>spaceWidth s \<noteq> 0\<close> by (auto simp: spaceWidth_def)
  ultimately show "(drop (spaceWidth s) s, s) \<in> measure length" by simp
qed

text \<open>
  At the right end the last code point is found by walking back to the byte that starts it, so
  the encodings are matched as suffixes.
\<close>

definition spaceWidthRight :: "string \<Rightarrow> nat" where
  "spaceWidthRight s =
    (case rev s of
       [] \<Rightarrow> 0
     | c # cs \<Rightarrow>
         if asciiSpace c then 1
         else (case find (\<lambda>u. suffix u s) unicodeSpace of
                 None \<Rightarrow> 0
               | Some u \<Rightarrow> length u))"

function TrimRight :: "string \<Rightarrow> string" where
  "TrimRight s =
    (if spaceWidthRight s = 0 then s else TrimRight (take (length s - spaceWidthRight s) s))"
  by pat_completeness auto
termination
proof (relation "measure length")
  show "wf (measure length)" by simp
next
  fix s :: string
  assume "spaceWidthRight s \<noteq> 0"
  moreover have "s \<noteq> []" using \<open>spaceWidthRight s \<noteq> 0\<close>
    by (auto simp: spaceWidthRight_def)
  ultimately show "(take (length s - spaceWidthRight s) s, s) \<in> measure length" by simp
qed

definition TrimSpace :: "string \<Rightarrow> string" where
  "TrimSpace s = TrimRight (TrimLeft s)"

text \<open>\<open>strings.Contains(s, substr)\<close>: \<open>substr\<close> occurs in \<open>s\<close> as a run of consecutive bytes.\<close>

fun Contains :: "string \<Rightarrow> string \<Rightarrow> bool" where
  "Contains [] substr = (substr = [])"
| "Contains (c # cs) substr = (prefix substr (c # cs) \<or> Contains cs substr)"

subsection \<open>filepath.Join\<close>

text \<open>
  \<open>filepath.Join\<close> drops the leading empty elements, joins what is left with the separator and
  returns \<open>filepath.Clean\<close> of that; with no element left it returns the empty string. \<open>Clean\<close>
  reads the path element by element: an empty element and \<open>.\<close> are skipped, \<open>..\<close> removes the
  element before it (at the root it is skipped, at the start of a relative path it is kept), and
  the elements that remain are joined by single separators. The elements kept so far are held
  newest first.
\<close>

fun splitSlash :: "string \<Rightarrow> string list" where
  "splitSlash [] = [[]]"
| "splitSlash (c # cs) =
    (if c = CHR ''/'' then [] # splitSlash cs
     else (case splitSlash cs of [] \<Rightarrow> [[c]] | e # es \<Rightarrow> (c # e) # es))"

fun strings_Join :: "string list \<Rightarrow> string \<Rightarrow> string" where
  "strings_Join [] sep = []"
| "strings_Join [e] sep = e"
| "strings_Join (e # es) sep = e @ sep @ strings_Join es sep"

definition cleanElem :: "bool \<Rightarrow> string list \<Rightarrow> string \<Rightarrow> string list" where
  "cleanElem rooted kept e =
    (if e = [] \<or> e = ''.'' then kept
     else if e = ''..'' then
       (case kept of
          [] \<Rightarrow> if rooted then [] else [''..'']
        | k # ks \<Rightarrow> if k = ''..'' then ''..'' # kept else ks)
     else e # kept)"

definition filepath_Clean :: "string \<Rightarrow> string" where
  "filepath_Clean path =
    (if path = [] then ''.''
     else
       (let rooted = (hd path = CHR ''/'');
            kept = foldl (cleanElem rooted) [] (splitSlash path);
            out = (if rooted then ''/'' else []) @ strings_Join (rev kept) ''/''
        in if out = [] then ''.'' else out))"

definition filepath_Join :: "string list \<Rightarrow> string" where
  "filepath_Join elem =
    (case dropWhile (\<lambda>e. e = []) elem of
       [] \<Rightarrow> []
     | e # es \<Rightarrow> filepath_Clean (strings_Join (e # es) ''/''))"

subsection \<open>Running a process\<close>

text \<open>
  The tools are outside the program. \<open>exec\<close> stands for them: from the state of the machine
  (environment, disks, volume-manager metadata), the executable's name and its arguments it gives
  what \<open>c.CombinedOutput()\<close> returns, the bytes written to standard output and standard error and
  the error, and the state the process leaves behind. Everything below holds for every \<open>exec\<close>.

  The state of a run records every command handed to \<open>c.CombinedOutput()\<close>, oldest first, with its
  arguments: each is one process started, or one failed attempt to start it, which is an error
  that \<open>exec\<close> returns like any other. The state also holds the package-level mutex of the second
  listing (the first listing has no such variable and never touches the field).
\<close>

datatype Mutex = Unlocked | Locked

type_synonym 'w exec = "'w \<Rightarrow> string \<Rightarrow> string list \<Rightarrow> (string \<times> error option) \<times> 'w"

record 'w sys =
  world :: 'w
  procs :: "(string \<times> string list) list"
  mutex :: Mutex

definition CombinedOutput ::
    "'w exec \<Rightarrow> string \<Rightarrow> string list \<Rightarrow> 'w sys \<Rightarrow> (string \<times> error option) \<times> 'w sys" where
  "CombinedOutput exec cmd args s =
    (case exec (world s) cmd args of
       (r, w') \<Rightarrow> (r, s\<lparr>world := w', procs := procs s @ [(cmd, args)]\<rparr>))"

subsection \<open>runCommand\<close>

definition retries :: nat where
  "retries = 10"

text \<open>
  The \<open>for ret < retries\<close> loop of \<open>runCommand\<close>, the same in both listings, with the variables it
  assigns: \<open>ret\<close>, \<open>output\<close> and \<open>err\<close>. The sleep between two attempts changes none of them.
\<close>

function runCommand_loop ::
    "'w exec \<Rightarrow> string \<Rightarrow> string list \<Rightarrow> nat \<Rightarrow> string \<Rightarrow> error option \<Rightarrow> 'w sys
      \<Rightarrow> string \<times> error option \<times> 'w sys" where
  "runCommand_loop exec cmd args ret output err s =
    (if ret < retries then
       (case CombinedOutput exec cmd args s of
          ((output', err'), s') \<Rightarrow>
            if err' = None then (output', err', s')
            else runCommand_loop exec cmd args (ret + 1) output' err' s')
     else (output, err, s))"
  by pat_completeness auto
termination
  by (relation "measure (\<lambda>(exec, cmd, args, ret, output, err, s). retries - ret)") auto

text \<open>First listing, lines 185--209.\<close>

definition runCommand ::
    "'w exec \<Rightarrow> string \<Rightarrow> string list \<Rightarrow> 'w sys \<Rightarrow> (string \<times> error option) \<times> 'w sys" where
  "runCommand exec cmd args s =
    (case runCommand_loop exec cmd args 0 [] None s of
       (output, err, s') \<Rightarrow> ((TrimSpace output, err), s'))"

text \<open>
  Second listing, lines 381--407: the loop runs between \<open>mutex.Lock()\<close> and the deferred
  \<open>mutex.Unlock()\<close>. In a run of one goroutine nobody else can release the mutex, so \<open>Lock\<close> on a
  held mutex never returns: the value \<open>None\<close>.
\<close>

definition runCommand_2 ::
    "'w exec \<Rightarrow> string \<Rightarrow> string list \<Rightarrow> 'w sys \<Rightarrow> ((string \<times> error option) \<times> 'w sys) option" where
  "runCommand_2 exec cmd args s =
    (if mutex s = Locked then None
     else
       (case runCommand_loop exec cmd args 0 [] None (s\<lparr>mutex := Locked\<rparr>) of
          (output, err, s') \<Rightarrow> Some ((TrimSpace output, err), s'\<lparr>mutex := Unlocked\<rparr>)))"

subsection \<open>First listing: operations that receive the lock\<close>

text \<open>
  Lines 36--50. \<open>formatVolume\<close> takes no lock.
\<close>

definition formatVolume ::
    "'w exec \<Rightarrow> string \<Rightarrow> string \<Rightarrow> string \<Rightarrow> 'w sys \<Rightarrow> error option \<times> 'w sys" where
  "formatVolume exec vgname lvname fstype s =
    (let mkfsArgs =
           (if fstype = ''ext4'' then
              [] @ [''-E'', ''nodiscard,lazy_itable_init=0,lazy_journal_init=0'']
            else if fstype = ''xfs'' then [] @ [''-K'']
            else []);
         cmd = ''mkfs.'' @ fstype;
         mkfsArgs = mkfsArgs @ [filepath_Join [''/dev/'', vgname, lvname]]
     in case runCommand exec cmd mkfsArgs s of ((out, err), s') \<Rightarrow> (err, s'))"

text \<open>
  The other operations open with \<open>lock.Lock()\<close> and \<open>defer lock.Unlock()\<close> on their parameter
  \<open>lock sync.Mutex\<close>. Go passes a struct by value, so the operation locks and unlocks its own copy
  of the caller's mutex: handed a held mutex it never returns (\<open>None\<close>), handed a free one it
  goes on, and the caller's mutex is as it was. \<open>kind\<close> is of a type declared in another package
  and is not used.

  Lines 52--78.
\<close>

definition createLVMVolume ::
    "'w exec \<Rightarrow> Mutex \<Rightarrow> string \<Rightarrow> string \<Rightarrow> string \<Rightarrow> string \<Rightarrow> string \<Rightarrow> 'k \<Rightarrow> 'w sys
      \<Rightarrow> ((string \<times> error option) \<times> 'w sys) option" where
  "createLVMVolume exec lock lvname vgname lvpoolname size' parent kind s =
    (if lock = Locked then None
     else
       (let cmd = ''lvcreate'';
            args =
              (if parent \<noteq> [] then [] @ [''--name'', lvname, ''--snapshot'', vgname @ ''/'' @ parent]
               else [] @ [''--virtualsize'', size', ''--name'', lvname, ''--thin'',
                          vgname @ ''/'' @ lvpoolname])
        in case runCommand exec cmd args s of
             ((out, err), s') \<Rightarrow>
               if err \<noteq> None then Some ((out, Wrap err ''Unable to create volume''), s')
               else Some ((out, err), s')))"

text \<open>Lines 80--96.\<close>

definition removeLVMVolume ::
    "'w exec \<Rightarrow> Mutex \<Rightarrow> string \<Rightarrow> string \<Rightarrow> 'w sys \<Rightarrow> ((string \<times> error option) \<times> 'w sys) option" where
  "removeLVMVolume exec lock lvname vgname s =
    (if lock = Locked then None
     else
       (let cmd = ''umount'';
            args = [''--lazy'', ''--force'', ''--all-targets'', filepath_Join [''/dev'', vgname, lvname]]
        in case runCommand exec cmd args s of
             ((output, err), s') \<Rightarrow>
               if err \<noteq> None \<and> \<not> Contains output ''not mounted'' then
                 Some ((output, Wrap err ''Unable to unmount volume''), s')
               else
                 (let cmd = ''lvremove'';
                      args = [''-y'', vgname @ ''/'' @ lvname]
                  in Some (runCommand exec cmd args s'))))"

text \<open>Lines 107--118.\<close>

definition createLogicalThinPool ::
    "'w exec \<Rightarrow> Mutex \<Rightarrow> string \<Rightarrow> string \<Rightarrow> 'w sys \<Rightarrow> ((string \<times> error option) \<times> 'w sys) option" where
  "createLogicalThinPool exec lock vgname lvpool s =
    (if lock = Locked then None
     else
       (let cmd = ''lvcreate'';
            args = [''--thinpool'', lvpool, ''--extents'', ''90%FREE'', vgname]
        in case runCommand exec cmd args s of
             ((out, err), s') \<Rightarrow>
               if err \<noteq> None \<and> Error (the err) = ''exit status 5'' then Some ((out, None), s')
               else Some ((out, err), s')))"

subsection \<open>Second listing: operations under the package-level mutex\<close>

text \<open>Lines 351--364.\<close>

definition toggleactivateLV_2 ::
    "'w exec \<Rightarrow> string \<Rightarrow> string \<Rightarrow> bool \<Rightarrow> 'w sys \<Rightarrow> ((string \<times> error option) \<times> 'w sys) option" where
  "toggleactivateLV_2 exec vgname lvname activate s =
    (let cmd = ''lvchange'';
         args = [''-K'', vgname @ ''/'' @ lvname, ''-a''];
         args = (if activate then args @ [''y''] else args @ [''n''])
     in runCommand_2 exec cmd args s)"

text \<open>Lines 247--291. A step that never returns leaves the operation without a result.\<close>

definition createLVMVolume_2 ::
    "'w exec \<Rightarrow> string \<Rightarrow> string \<Rightarrow> string \<Rightarrow> string \<Rightarrow> string \<Rightarrow> string \<Rightarrow> 'k \<Rightarrow> 'w sys
      \<Rightarrow> ((string \<times> error option) \<times> 'w sys) option" where
  "createLVMVolume_2 exec lvname vgname lvpoolname size' fstype parent kind s =
    (let cmd = ''lvcreate'';
         args =
           (if parent \<noteq> [] then [] @ [''--name'', lvname, ''--snapshot'', vgname @ ''/'' @ parent]
            else [] @ [''--virtualsize'', size', ''--name'', lvname, ''--thin'',
                       vgname @ ''/'' @ lvpoolname])
     in case runCommand_2 exec cmd args s of
          None \<Rightarrow> None
        | Some ((out, err), s1) \<Rightarrow>
            if err \<noteq> None then Some ((out, Wrap err ''Unable to create volume''), s1)
            else
              (case toggleactivateLV_2 exec vgname lvname True s1 of
                 None \<Rightarrow> None
               | Some ((out, err), s2) \<Rightarrow>
                   if err \<noteq> None then Some ((out, Wrap err ''Unable to activate thin volume''), s2)
                   else if parent = [] then
                     (let mkfsArgs =
                            (if fstype = ''ext4'' then
                               [] @ [''-E'', ''nodiscard,lazy_itable_init=0,lazy_journal_init=0'']
                             else if fstype = ''xfs'' then [] @ [''-K'']
                             else []);
                          cmd = ''mkfs.'' @ fstype;
                          mkfsArgs = mkfsArgs @ [filepath_Join [''/dev/'', vgname, lvname]]
                      in runCommand_2 exec cmd mkfsArgs s2)
                   else Some ((out, err), s2)))"

text \<open>Lines 293--306.\<close>

definition removeLVMVolume_2 ::
    "'w exec \<Rightarrow> string \<Rightarrow> string \<Rightarrow> 'w sys \<Rightarrow> ((string \<times> error option) \<times> 'w sys) option" where
  "removeLVMVolume_2 exec lvname vgname s =
    (let cmd = ''blkdeactivate'';
         args = [''-u'', filepath_Join [''/dev'', vgname, lvname]]
     in case runCommand_2 exec cmd args s of
          None \<Rightarrow> None
        | Some ((output, err), s') \<Rightarrow>
            if err \<noteq> None then Some ((output, Wrap err ''Unable to unmount volume''), s')
            else
              (let cmd = ''lvremove'';
                   args = [''-y'', vgname @ ''/'' @ lvname]
               in runCommand_2 exec cmd args s'))"

text \<open>Lines 315--324.\<close>

definition createLogicalThinPool_2 ::
    "'w exec \<Rightarrow> string \<Rightarrow> string \<Rightarrow> 'w sys \<Rightarrow> ((string \<times> error option) \<times> 'w sys) option" where
  "createLogicalThinPool_2 exec vgname lvpool s =
    (let cmd = ''lvcreate'';
         args = [''--thinpool'', lvpool, ''--extents'', ''90%FREE'', vgname]
     in case runCommand_2 exec cmd args s of
          None \<Rightarrow> None
        | Some ((out, err), s') \<Rightarrow>
            if err \<noteq> None \<and> Error (the err) = ''exit status 5'' then Some ((out, None), s')
            else Some ((out, err), s'))"

subsection \<open>Vocabulary of the statements\<close>

text \<open>
  The state of the machine after \<open>n\<close> runs of one command in a row, and what run \<open>n + 1\<close> of
  them returns.
\<close>

fun after :: "'w exec \<Rightarrow> string \<Rightarrow> string list \<Rightarrow> nat \<Rightarrow> 'w \<Rightarrow> 'w" where
  "after exec cmd args 0 w = w"
| "after exec cmd args (Suc n) w = after exec cmd args n (snd (exec w cmd args))"

definition attempt ::
    "'w exec \<Rightarrow> string \<Rightarrow> string list \<Rightarrow> nat \<Rightarrow> 'w \<Rightarrow> string \<times> error option" where
  "attempt exec cmd args n w = fst (exec (after exec cmd args n w) cmd args)"

text \<open>The commands run on the way from state \<open>s\<close> to state \<open>s'\<close>.\<close>

definition spawned :: "'w sys \<Rightarrow> 'w sys \<Rightarrow> (string \<times> string list) list" where
  "spawned s s' = drop (length (procs s)) (procs s')"

text \<open>A name that is one element of a path and that \<open>filepath.Clean\<close> keeps as it is.\<close>

definition pathElem :: "string \<Rightarrow> bool" where
  "pathElem name \<longleftrightarrow> name \<noteq> [] \<and> name \<noteq> ''.'' \<and> name \<noteq> ''..'' \<and> CHR ''/'' \<notin> set name"

text \<open>A byte of some white space that \<open>strings.TrimSpace\<close> removes.\<close>

definition spaceByte :: "char \<Rightarrow> bool" where
  "spaceByte c \<longleftrightarrow> asciiSpace c \<or> (\<exists>u\<in>set unicodeSpace. c \<in> set u)"

text \<open>A fresh machine: nothing started yet, the mutex free.\<close>

definition boot :: "'w \<Rightarrow> 'w sys" where
  "boot w = \<lparr>world = w, procs = [], mutex = Unlocked\<rparr>"

text \<open>
  A machine for running the model: its state is the list of what the next processes will return,
  whatever they are; past the end of the list every process succeeds in silence.
\<close>

definition scripted :: "(string \<times> error option) list exec" where
  "scripted w cmd args = (case w of [] \<Rightarrow> (([], None), []) | r # rs \<Rightarrow> (r, rs))"

definition poolExists :: "(string \<times> error option) list" where
  "poolExists = replicate 10 (''  Logical volume pool0 already exists'', Some (CmdError ''exit status 5''))"

definition noSuchGroup :: "(string \<times> error option) list" where
  "noSuchGroup = replicate 10 (''  Volume group vg0 not found'', Some (CmdError ''exit status 3''))"

definition freshRun :: "(string \<times> error option) list" where
  "freshRun = [(''  Logical volume lv1 created.'', None), ([], None), (''done'', None)]"

definition activateFails :: "(string \<times> error option) list" where
  "activateFails =
    (''  Logical volume lv1 created.'', None)
    # replicate 10 (''  Failed to activate vg0/lv1'', Some (CmdError ''exit status 5''))"

definition mkfsFails :: "(string \<times> error option) list" where
  "mkfsFails =
    [(''  Logical volume lv1 created.'', None), ([], None)]
    @ replicate 10 (''mkfs.ext4: Device or resource busy'', Some (CmdError ''exit status 1''))"

definition notMounted :: "(string \<times> error option) list" where
  "notMounted =
    replicate 10 (''umount: /dev/vg0/lv1: not mounted.'', Some (CmdError ''exit status 32''))
    @ [(''  Logical volume lv1 successfully removed'', None)]"

definition targetBusy :: "(string \<times> error option) list" where
  "targetBusy =
    replicate 10 (''umount: /dev/vg0/lv1: target is busy.'', Some (CmdError ''exit status 32''))"

section \<open>The device path\<close>

lemma splitSlash_plain: "CHR ''/'' \<notin> set a \<Longrightarrow> splitSlash a = [a]"
  by (induction a) auto

lemma splitSlash_append:
  "CHR ''/'' \<notin> set a \<Longrightarrow> splitSlash (a @ CHR ''/'' # b) = a # splitSlash b"
  by (induction a) auto

lemma cleanElem_keep: "pathElem e \<Longrightarrow> cleanElem rooted kept e = e # kept"
  by (auto simp: cleanElem_def pathElem_def)

lemma cleanElem_skip [simp]: "cleanElem rooted kept [] = kept"
  by (simp add: cleanElem_def)

lemma pathElem_dev [simp]: "pathElem ''dev''"
  by (simp add: pathElem_def)

lemma splitSlash_names:
  assumes "pathElem vg" "pathElem lv"
  shows "splitSlash (vg @ CHR ''/'' # lv) = [vg, lv]"
proof -
  have vg: "CHR ''/'' \<notin> set vg" and lv: "CHR ''/'' \<notin> set lv"
    using assms by (simp_all add: pathElem_def)
  show ?thesis
    by (simp add: splitSlash_append [OF vg] splitSlash_plain [OF lv])
qed

text \<open>
  For two names that are path elements, the join of \<open>/dev/\<close> (as \<open>formatVolume\<close> writes it) or
  \<open>/dev\<close> (as \<open>removeLVMVolume\<close> does) with them is the concatenation.
\<close>

lemma devpath_slash:
  assumes "pathElem vg" "pathElem lv"
  shows "filepath_Join [''/dev/'', vg, lv] = ''/dev/'' @ vg @ ''/'' @ lv"
proof -
  have "filepath_Join [''/dev/'', vg, lv] = filepath_Clean (''/dev/'' @ ''/'' @ vg @ ''/'' @ lv)"
    by (simp add: filepath_Join_def)
  also have "\<dots> = ''/dev/'' @ vg @ ''/'' @ lv"
    using splitSlash_names [OF assms]
    by (simp add: filepath_Clean_def cleanElem_keep assms Let_def)
  finally show ?thesis .
qed

lemma devpath:
  assumes "pathElem vg" "pathElem lv"
  shows "filepath_Join [''/dev'', vg, lv] = ''/dev/'' @ vg @ ''/'' @ lv"
proof -
  have "filepath_Join [''/dev'', vg, lv] = filepath_Clean (''/dev'' @ ''/'' @ vg @ ''/'' @ lv)"
    by (simp add: filepath_Join_def)
  also have "\<dots> = ''/dev/'' @ vg @ ''/'' @ lv"
    using splitSlash_names [OF assms]
    by (simp add: filepath_Clean_def cleanElem_keep assms Let_def)
  finally show ?thesis .
qed

section \<open>The retry loop\<close>

declare TrimLeft.simps [simp del] TrimRight.simps [simp del] runCommand_loop.simps [simp del]

lemma attempt_Suc: "attempt exec cmd args (Suc n) w = attempt exec cmd args n (snd (exec w cmd args))"
  by (simp add: attempt_def)

lemma loop_fail:
  "ret < retries \<Longrightarrow> snd (attempt exec cmd args 0 (world s)) \<noteq> None \<Longrightarrow>
   runCommand_loop exec cmd args ret out0 err0 s =
   runCommand_loop exec cmd args (Suc ret) (fst (attempt exec cmd args 0 (world s)))
     (snd (attempt exec cmd args 0 (world s)))
     (s\<lparr>world := after exec cmd args 1 (world s), procs := procs s @ [(cmd, args)]\<rparr>)"
  by (subst runCommand_loop.simps)
     (auto simp: CombinedOutput_def attempt_def split: prod.splits)

lemma loop_ok:
  "ret < retries \<Longrightarrow> snd (attempt exec cmd args 0 (world s)) = None \<Longrightarrow>
   runCommand_loop exec cmd args ret out0 err0 s =
   (fst (attempt exec cmd args 0 (world s)), None,
     s\<lparr>world := after exec cmd args 1 (world s), procs := procs s @ [(cmd, args)]\<rparr>)"
  by (subst runCommand_loop.simps)
     (auto simp: CombinedOutput_def attempt_def split: prod.splits)

lemma loop_fails:
  "ret + n \<le> retries \<Longrightarrow> \<forall>i<n. snd (attempt exec cmd args i (world s)) \<noteq> None \<Longrightarrow>
   runCommand_loop exec cmd args ret out0 err0 s =
   runCommand_loop exec cmd args (ret + n)
     (if n = 0 then out0 else fst (attempt exec cmd args (n - 1) (world s)))
     (if n = 0 then err0 else snd (attempt exec cmd args (n - 1) (world s)))
     (s\<lparr>world := after exec cmd args n (world s), procs := procs s @ replicate n (cmd, args)\<rparr>)"
proof (induction n arbitrary: ret out0 err0 s)
  case 0
  then show ?case by simp
next
  case (Suc n)
  have f0: "snd (attempt exec cmd args 0 (world s)) \<noteq> None" using Suc.prems(2) by blast
  have lt: "ret < retries" using Suc.prems(1) by simp
  let ?s1 = "s\<lparr>world := after exec cmd args 1 (world s), procs := procs s @ [(cmd, args)]\<rparr>"
  have rest: "\<forall>i<n. snd (attempt exec cmd args i (world ?s1)) \<noteq> None"
    using Suc.prems(2) by (auto simp: attempt_Suc [symmetric])
  have le: "Suc ret + n \<le> retries" using Suc.prems(1) by simp
  show ?case
    apply (subst loop_fail [OF lt f0])
    apply (subst Suc.IH [OF le rest])
    apply (cases n)
     apply (simp_all add: attempt_Suc replicate_append_same)
    done
qed

lemma loop_exhausted:
  assumes "\<forall>i<retries. snd (attempt exec cmd args i (world s)) \<noteq> None"
  shows "runCommand_loop exec cmd args 0 [] None s =
    (fst (attempt exec cmd args (retries - 1) (world s)),
     snd (attempt exec cmd args (retries - 1) (world s)),
     s\<lparr>world := after exec cmd args retries (world s),
       procs := procs s @ replicate retries (cmd, args)\<rparr>)"
proof -
  have "runCommand_loop exec cmd args 0 [] None s =
      runCommand_loop exec cmd args (0 + retries)
        (if retries = 0 then [] else fst (attempt exec cmd args (retries - 1) (world s)))
        (if retries = 0 then None else snd (attempt exec cmd args (retries - 1) (world s)))
        (s\<lparr>world := after exec cmd args retries (world s),
           procs := procs s @ replicate retries (cmd, args)\<rparr>)"
    by (rule loop_fails) (use assms in simp_all)
  also have "\<dots> = (fst (attempt exec cmd args (retries - 1) (world s)),
     snd (attempt exec cmd args (retries - 1) (world s)),
     s\<lparr>world := after exec cmd args retries (world s),
       procs := procs s @ replicate retries (cmd, args)\<rparr>)"
    by (subst runCommand_loop.simps) (simp add: retries_def)
  finally show ?thesis .
qed

lemma after_right:
  "after exec cmd args (Suc n) w = snd (exec (after exec cmd args n w) cmd args)"
  by (induction n arbitrary: w) simp_all

lemma loop_first_success:
  assumes k: "k < retries"
    and fails: "\<forall>i<k. snd (attempt exec cmd args i (world s)) \<noteq> None"
    and ok: "snd (attempt exec cmd args k (world s)) = None"
  shows "runCommand_loop exec cmd args 0 [] None s =
    (fst (attempt exec cmd args k (world s)), None,
     s\<lparr>world := after exec cmd args (Suc k) (world s),
       procs := procs s @ replicate (Suc k) (cmd, args)\<rparr>)"
proof -
  let ?sk = "s\<lparr>world := after exec cmd args k (world s), procs := procs s @ replicate k (cmd, args)\<rparr>"
  have att: "attempt exec cmd args 0 (world ?sk) = attempt exec cmd args k (world s)"
    by (simp add: attempt_def)
  have "runCommand_loop exec cmd args 0 [] None s =
      runCommand_loop exec cmd args (0 + k)
        (if k = 0 then [] else fst (attempt exec cmd args (k - 1) (world s)))
        (if k = 0 then None else snd (attempt exec cmd args (k - 1) (world s))) ?sk"
    by (rule loop_fails) (use k fails in simp_all)
  also have "\<dots> = (fst (attempt exec cmd args 0 (world ?sk)), None,
      ?sk\<lparr>world := after exec cmd args 1 (world ?sk), procs := procs ?sk @ [(cmd, args)]\<rparr>)"
    by (rule loop_ok) (use k ok att in simp_all)
  also have "\<dots> = (fst (attempt exec cmd args k (world s)), None,
     s\<lparr>world := after exec cmd args (Suc k) (world s),
       procs := procs s @ replicate (Suc k) (cmd, args)\<rparr>)"
    unfolding att after_right [of _ _ _ k] by (simp add: replicate_append_same)
  finally show ?thesis .
qed

lemma loop_cases:
  obtains (exhausted) "\<forall>i<retries. snd (attempt exec cmd args i w) \<noteq> None"
  | (success) k where "k < retries" "\<forall>i<k. snd (attempt exec cmd args i w) \<noteq> None"
      "snd (attempt exec cmd args k w) = None"
proof -
  show thesis
  proof (cases "\<exists>k<retries. snd (attempt exec cmd args k w) = None")
    case False
    show ?thesis by (rule exhausted) (use False in auto)
  next
    case True
    define P where "P k \<longleftrightarrow> k < retries \<and> snd (attempt exec cmd args k w) = None" for k
    have ex: "\<exists>k. P k" using True by (auto simp: P_def)
    define k where "k = (LEAST k. P k)"
    have Pk: "P k" unfolding k_def using ex by (metis LeastI)
    have least: "\<And>i. i < k \<Longrightarrow> \<not> P i" unfolding k_def by (rule not_less_Least)
    have "\<forall>i<k. snd (attempt exec cmd args i w) \<noteq> None"
      using least Pk unfolding P_def by (metis less_trans)
    then show ?thesis using success Pk unfolding P_def by blast
  qed
qed

lemma loop_mutex_update:
  "runCommand_loop exec cmd args ret out0 err0 (s\<lparr>mutex := m\<rparr>) =
   (case runCommand_loop exec cmd args ret out0 err0 s of
      (out1, err1, s') \<Rightarrow> (out1, err1, s'\<lparr>mutex := m\<rparr>))"
proof (induction exec cmd args ret out0 err0 s rule: runCommand_loop.induct)
  case (1 exec cmd args ret out0 err0 s)
  show ?case
  proof (cases "ret < retries")
    case False
    then show ?thesis by (simp add: runCommand_loop.simps [of _ _ _ ret])
  next
    case True
    obtain out1 err1 w' where ex: "exec (world s) cmd args = ((out1, err1), w')"
      by (metis surj_pair)
    let ?s1 = "s\<lparr>world := w', procs := procs s @ [(cmd, args)]\<rparr>"
    have co: "CombinedOutput exec cmd args s = ((out1, err1), ?s1)"
      by (simp add: CombinedOutput_def ex)
    have co': "CombinedOutput exec cmd args (s\<lparr>mutex := m\<rparr>) = ((out1, err1), ?s1\<lparr>mutex := m\<rparr>)"
      by (simp add: CombinedOutput_def ex)
    show ?thesis
    proof (cases err1)
      case None
      with \<open>ret < retries\<close> co co' show ?thesis
        by (simp add: runCommand_loop.simps [of _ _ _ ret])
    next
      case (Some e)
      then have ne: "err1 \<noteq> None" by simp
      have IH: "runCommand_loop exec cmd args (ret + 1) out1 err1 (?s1\<lparr>mutex := m\<rparr>) =
        (case runCommand_loop exec cmd args (ret + 1) out1 err1 ?s1 of
           (out2, err2, s') \<Rightarrow> (out2, err2, s'\<lparr>mutex := m\<rparr>))"
        using "1.IH" [OF \<open>ret < retries\<close> co [symmetric] refl ne] .
      have l: "runCommand_loop exec cmd args ret out0 err0 (s\<lparr>mutex := m\<rparr>) =
          runCommand_loop exec cmd args (ret + 1) out1 err1 (?s1\<lparr>mutex := m\<rparr>)"
        using \<open>ret < retries\<close> co' by (simp add: runCommand_loop.simps [of _ _ _ ret] Some)
      have r: "runCommand_loop exec cmd args ret out0 err0 s =
          runCommand_loop exec cmd args (ret + 1) out1 err1 ?s1"
        using \<open>ret < retries\<close> co by (simp add: runCommand_loop.simps [of _ _ _ ret] Some)
      show ?thesis unfolding l r by (rule IH)
    qed
  qed
qed

lemma loop_shape:
  obtains n where "1 \<le> n" "n \<le> retries"
    "runCommand_loop exec cmd args 0 [] None s =
      (fst (attempt exec cmd args (n - 1) (world s)), snd (attempt exec cmd args (n - 1) (world s)),
       s\<lparr>world := after exec cmd args n (world s), procs := procs s @ replicate n (cmd, args)\<rparr>)"
    "snd (attempt exec cmd args (n - 1) (world s)) \<noteq> None \<longrightarrow> n = retries"
proof (cases rule: loop_cases [of exec cmd args "world s"])
  case exhausted
  have "(1::nat) \<le> retries" by (simp add: retries_def)
  then show ?thesis
    using loop_exhausted [OF exhausted] by (intro that [of retries]) simp_all
next
  case (success k)
  have "runCommand_loop exec cmd args 0 [] None s =
    (fst (attempt exec cmd args k (world s)), None,
     s\<lparr>world := after exec cmd args (Suc k) (world s),
       procs := procs s @ replicate (Suc k) (cmd, args)\<rparr>)"
    using success by (rule loop_first_success)
  then show ?thesis
    using success by (intro that [of "Suc k"]) simp_all
qed

lemma runCommand_shape:
  obtains n where "1 \<le> n" "n \<le> retries"
    "runCommand exec cmd args s =
      ((TrimSpace (fst (attempt exec cmd args (n - 1) (world s))),
        snd (attempt exec cmd args (n - 1) (world s))),
       s\<lparr>world := after exec cmd args n (world s), procs := procs s @ replicate n (cmd, args)\<rparr>)"
    "snd (attempt exec cmd args (n - 1) (world s)) \<noteq> None \<longrightarrow> n = retries"
proof -
  obtain n where n: "1 \<le> n" "n \<le> retries"
    "runCommand_loop exec cmd args 0 [] None s =
      (fst (attempt exec cmd args (n - 1) (world s)), snd (attempt exec cmd args (n - 1) (world s)),
       s\<lparr>world := after exec cmd args n (world s), procs := procs s @ replicate n (cmd, args)\<rparr>)"
    "snd (attempt exec cmd args (n - 1) (world s)) \<noteq> None \<longrightarrow> n = retries"
    by (rule loop_shape)
  show ?thesis
    using n by (intro that [of n]) (simp_all add: runCommand_def)
qed

lemma runCommand_mutex: "mutex (snd (runCommand exec cmd args s)) = mutex s"
  by (rule runCommand_shape [of exec cmd args s]) simp

lemma runCommand_procs:
  assumes "runCommand exec cmd args s = (r, s')"
  shows "\<exists>n. 1 \<le> n \<and> n \<le> 10 \<and> procs s' = procs s @ replicate n (cmd, args)
    \<and> (snd r \<noteq> None \<longrightarrow> n = 10)"
proof -
  obtain n where n: "1 \<le> n" "n \<le> retries"
    "runCommand exec cmd args s =
      ((TrimSpace (fst (attempt exec cmd args (n - 1) (world s))),
        snd (attempt exec cmd args (n - 1) (world s))),
       s\<lparr>world := after exec cmd args n (world s), procs := procs s @ replicate n (cmd, args)\<rparr>)"
    "snd (attempt exec cmd args (n - 1) (world s)) \<noteq> None \<longrightarrow> n = retries"
    by (rule runCommand_shape)
  show ?thesis
    using n assms by (intro exI [of _ n]) (auto simp: retries_def)
qed

lemma spawned_append [simp]: "procs s' = procs s @ ps \<Longrightarrow> spawned s s' = ps"
  by (simp add: spawned_def)

lemma runCommand_failed:
  assumes "runCommand exec cmd args s = ((out, Some e), s')"
  shows "spawned s s' = replicate 10 (cmd, args)"
  using runCommand_procs [OF assms] by auto

subsection \<open>Under the package-level mutex\<close>

lemma runCommand_2_eq:
  assumes "mutex s = Unlocked"
  shows "runCommand_2 exec cmd args s = Some (runCommand exec cmd args s)"
proof -
  obtain out1 err1 s' where l: "runCommand_loop exec cmd args 0 [] None s = (out1, err1, s')"
    by (metis prod_cases3)
  have "mutex (snd (runCommand exec cmd args s)) = Unlocked"
    using assms by (simp add: runCommand_mutex)
  then have m: "mutex s' = Unlocked" by (simp add: runCommand_def l)
  have "s'\<lparr>mutex := Unlocked\<rparr> = s'" using m by simp
  then show ?thesis
    using assms by (simp add: runCommand_2_def runCommand_def loop_mutex_update l)
qed

lemma runCommand_2_locked: "mutex s = Locked \<Longrightarrow> runCommand_2 exec cmd args s = None"
  by (simp add: runCommand_2_def)

lemma runCommand_2_Some:
  assumes "runCommand_2 exec cmd args s = Some (r, s')"
  shows "mutex s = Unlocked" and "mutex s' = Unlocked" and "runCommand exec cmd args s = (r, s')"
proof -
  show free: "mutex s = Unlocked"
    using assms by (cases "mutex s") (simp_all add: runCommand_2_def)
  show run: "runCommand exec cmd args s = (r, s')"
    using assms runCommand_2_eq [OF free, of exec cmd args] by simp
  show "mutex s' = Unlocked"
    using runCommand_mutex [of exec cmd args s] free by (simp add: run)
qed

lemma runCommand_2_returns:
  assumes "mutex s = Unlocked"
  shows "\<exists>r s'. runCommand_2 exec cmd args s = Some (r, s') \<and> mutex s' = Unlocked"
  using assms runCommand_mutex [of exec cmd args s]
  by (cases "runCommand exec cmd args s") (simp add: runCommand_2_eq)

lemma runCommand_2_run:
  assumes "mutex s = Unlocked"
  obtains out err s' n where "runCommand_2 exec cmd args s = Some ((out, err), s')"
    "mutex s' = Unlocked" "1 \<le> n" "n \<le> 10" "procs s' = procs s @ replicate n (cmd, args)"
    "err \<noteq> None \<longrightarrow> n = 10"
proof -
  obtain out err s' where r: "runCommand exec cmd args s = ((out, err), s')"
    by (metis surj_pair)
  obtain n where n: "1 \<le> n" "n \<le> 10" "procs s' = procs s @ replicate n (cmd, args)"
      "err \<noteq> None \<longrightarrow> n = 10"
    using runCommand_procs [OF r] by auto
  have "mutex s' = Unlocked"
    using runCommand_mutex [of exec cmd args s] assms by (simp add: r)
  moreover have "runCommand_2 exec cmd args s = Some ((out, err), s')"
    by (simp add: runCommand_2_eq [OF assms] r)
  ultimately show ?thesis using n that by blast
qed

lemma runCommand_2_failed:
  assumes "runCommand_2 exec cmd args s = Some ((out, Some e), s')"
  shows "spawned s s' = replicate 10 (cmd, args)"
proof -
  have "runCommand exec cmd args s = ((out, Some e), s')"
    using assms by (rule runCommand_2_Some)
  from runCommand_procs [OF this] show ?thesis by auto
qed

text \<open>An operation of the first listing that is handed a held mutex never returns.\<close>

lemma held_lock_never_returns:
  "createLVMVolume exec Locked lvname vgname lvpoolname size' parent kind s = None"
  "removeLVMVolume exec Locked lvname vgname s = None"
  "createLogicalThinPool exec Locked vgname lvpool s = None"
  by (simp_all add: createLVMVolume_def removeLVMVolume_def createLogicalThinPool_def)

subsection \<open>The retry ceiling and the first success\<close>

text \<open>
  Claim C2. A command that fails at each of its ten attempts is started exactly ten times, and
  \<open>runCommand\<close> returns what the tenth attempt wrote, with the white space at its ends removed,
  and the tenth attempt's error. The second listing's \<open>runCommand\<close>, entered with the mutex free,
  returns the same.
\<close>

theorem runCommand_retry_ceiling:
  assumes "\<forall>i<10. snd (attempt exec cmd args i (world s)) \<noteq> None"
  shows "runCommand exec cmd args s =
      ((TrimSpace (fst (attempt exec cmd args 9 (world s))),
        snd (attempt exec cmd args 9 (world s))),
       s\<lparr>world := after exec cmd args 10 (world s),
         procs := procs s @ replicate 10 (cmd, args)\<rparr>)
    \<and> (mutex s = Unlocked \<longrightarrow>
         runCommand_2 exec cmd args s = Some (runCommand exec cmd args s))"
proof -
  have "\<forall>i<retries. snd (attempt exec cmd args i (world s)) \<noteq> None"
    using assms by (simp add: retries_def)
  from loop_exhausted [OF this]
  have "runCommand exec cmd args s =
      ((TrimSpace (fst (attempt exec cmd args 9 (world s))),
        snd (attempt exec cmd args 9 (world s))),
       s\<lparr>world := after exec cmd args 10 (world s),
         procs := procs s @ replicate 10 (cmd, args)\<rparr>)"
    by (simp add: runCommand_def retries_def)
  then show ?thesis by (simp add: runCommand_2_eq)
qed

theorem runCommand_retry_ceiling_witness:
  "runCommand scripted ''lvs'' [''vg0'']
      (boot (replicate 9 (''busy'', Some (CmdError ''exit status 5''))
             @ [('' gone '', Some (CmdError ''exit status 3'')), (''vg0'', None)])) =
    ((''gone'', Some (CmdError ''exit status 3'')),
     \<lparr>world = [(''vg0'', None)], procs = replicate 10 (''lvs'', [''vg0'']), mutex = Unlocked\<rparr>)"
proof -
  let ?w = "replicate 9 (''busy'', Some (CmdError ''exit status 5''))
             @ [('' gone '', Some (CmdError ''exit status 3'')), (''vg0'', None)]"
  have fails: "\<forall>i<10. snd (attempt scripted ''lvs'' [''vg0''] i (world (boot ?w))) \<noteq> None"
    by code_simp
  have last: "attempt scripted ''lvs'' [''vg0''] 9 ?w = ('' gone '', Some (CmdError ''exit status 3''))"
    by code_simp
  have rest: "after scripted ''lvs'' [''vg0''] 10 ?w = [(''vg0'', None)]"
    by code_simp
  have trim: "TrimSpace '' gone '' = ''gone''"
    by code_simp
  show ?thesis
    using runCommand_retry_ceiling [OF fails] by (simp add: boot_def last rest trim)
qed

text \<open>
  Claim C6. A command that fails at its first \<open>k\<close> attempts, \<open>k < 10\<close>, and succeeds at the next
  is started \<open>k + 1\<close> times and no more, and \<open>runCommand\<close> returns a \<open>nil\<close> error with what the
  successful attempt wrote to standard output and standard error, the white space at its ends
  removed. The second listing's \<open>runCommand\<close>, entered with the mutex free, returns the same.
\<close>

theorem runCommand_first_success:
  assumes "k < 10"
    and "\<forall>i<k. snd (attempt exec cmd args i (world s)) \<noteq> None"
    and "snd (attempt exec cmd args k (world s)) = None"
  shows "runCommand exec cmd args s =
      ((TrimSpace (fst (attempt exec cmd args k (world s))), None),
       s\<lparr>world := after exec cmd args (Suc k) (world s),
         procs := procs s @ replicate (Suc k) (cmd, args)\<rparr>)
    \<and> (mutex s = Unlocked \<longrightarrow>
         runCommand_2 exec cmd args s = Some (runCommand exec cmd args s))"
proof -
  have "k < retries" using assms(1) by (simp add: retries_def)
  from loop_first_success [OF this assms(2) assms(3)]
  show ?thesis by (simp add: runCommand_def runCommand_2_eq)
qed

theorem runCommand_first_success_witness:
  "runCommand scripted ''lvs'' [''vg0'']
      (boot [(''busy'', Some (CmdError ''exit status 5'')),
             (''busy'', Some (CmdError ''exit status 5'')),
             ([CHR 0x09] @ ''vg0 '' @ [CHR 0x0A], None),
             (''later'', None)]) =
    ((''vg0'', None),
     \<lparr>world = [(''later'', None)], procs = replicate 3 (''lvs'', [''vg0'']), mutex = Unlocked\<rparr>)
   \<and> runCommand_2 scripted ''lvs'' [''vg0'']
      (boot [(''busy'', Some (CmdError ''exit status 5'')),
             (''busy'', Some (CmdError ''exit status 5'')),
             ([CHR 0x09] @ ''vg0 '' @ [CHR 0x0A], None),
             (''later'', None)]) =
    Some ((''vg0'', None),
     \<lparr>world = [(''later'', None)], procs = replicate 3 (''lvs'', [''vg0'']), mutex = Unlocked\<rparr>)"
proof -
  define s :: "(string \<times> error option) list sys" where "s = boot [(''busy'', Some (CmdError ''exit status 5'')),
             (''busy'', Some (CmdError ''exit status 5'')),
             ([CHR 0x09] @ ''vg0 '' @ [CHR 0x0A], None),
             (''later'', None)]"
  have k: "(2::nat) < 10" by simp
  have fails: "\<forall>i<2. snd (attempt scripted ''lvs'' [''vg0''] i (world s)) \<noteq> None"
    unfolding s_def by code_simp
  have ok: "snd (attempt scripted ''lvs'' [''vg0''] 2 (world s)) = None"
    unfolding s_def by code_simp
  note run = runCommand_first_success [OF k fails ok]
  have ev: "((TrimSpace (fst (attempt scripted ''lvs'' [''vg0''] 2 (world s))), None :: error option),
       s\<lparr>world := after scripted ''lvs'' [''vg0''] (Suc 2) (world s),
         procs := procs s @ replicate (Suc 2) (''lvs'', [''vg0''])\<rparr>) =
     ((''vg0'', None),
      \<lparr>world = [(''later'', None)], procs = replicate 3 (''lvs'', [''vg0'']), mutex = Unlocked\<rparr>)"
    unfolding s_def by code_simp
  have free: "mutex s = Unlocked" by (simp add: s_def boot_def)
  have one: "runCommand scripted ''lvs'' [''vg0''] s =
     ((''vg0'', None),
      \<lparr>world = [(''later'', None)], procs = replicate 3 (''lvs'', [''vg0'']), mutex = Unlocked\<rparr>)"
    using run [THEN conjunct1] unfolding ev .
  have two: "runCommand_2 scripted ''lvs'' [''vg0''] s = Some (runCommand scripted ''lvs'' [''vg0''] s)"
    using run [THEN conjunct2] free by simp
  show ?thesis
    unfolding s_def [symmetric] using one two by simp
qed

section \<open>Thin-pool creation\<close>

text \<open>
  Claim C4. When the pool-creation command ends with an error whose text is \<open>exit status 5\<close>,
  \<open>createLogicalThinPool\<close> returns the captured output and a \<open>nil\<close> error; it returns any other
  error of the command as it is, with the output. The second listing's function, entered with
  the mutex free, returns what the first listing's does.
\<close>

theorem createLogicalThinPool_already_exists:
  assumes "runCommand exec ''lvcreate'' [''--thinpool'', lvpool, ''--extents'', ''90%FREE'', vgname] s
      = ((out, Some e), s')"
  shows "(Error e = ''exit status 5'' \<longrightarrow>
            createLogicalThinPool exec Unlocked vgname lvpool s = Some ((out, None), s'))
    \<and> (Error e \<noteq> ''exit status 5'' \<longrightarrow>
            createLogicalThinPool exec Unlocked vgname lvpool s = Some ((out, Some e), s'))
    \<and> (mutex s = Unlocked \<longrightarrow>
            createLogicalThinPool_2 exec vgname lvpool s =
            createLogicalThinPool exec Unlocked vgname lvpool s)"
  using assms
  by (simp add: createLogicalThinPool_def createLogicalThinPool_2_def runCommand_2_eq)

theorem createLogicalThinPool_already_exists_witness:
  "createLogicalThinPool scripted Unlocked ''vg0'' ''pool0'' (boot poolExists) =
     Some ((''Logical volume pool0 already exists'', None),
       \<lparr>world = [],
        procs = replicate 10 (''lvcreate'', [''--thinpool'', ''pool0'', ''--extents'', ''90%FREE'', ''vg0'']),
        mutex = Unlocked\<rparr>)
   \<and> createLogicalThinPool_2 scripted ''vg0'' ''pool0'' (boot poolExists) =
     Some ((''Logical volume pool0 already exists'', None),
       \<lparr>world = [],
        procs = replicate 10 (''lvcreate'', [''--thinpool'', ''pool0'', ''--extents'', ''90%FREE'', ''vg0'']),
        mutex = Unlocked\<rparr>)
   \<and> createLogicalThinPool scripted Unlocked ''vg0'' ''pool0'' (boot noSuchGroup) =
     Some ((''Volume group vg0 not found'', Some (CmdError ''exit status 3'')),
       \<lparr>world = [],
        procs = replicate 10 (''lvcreate'', [''--thinpool'', ''pool0'', ''--extents'', ''90%FREE'', ''vg0'']),
        mutex = Unlocked\<rparr>)"
proof -
  let ?args = "[''--thinpool'', ''pool0'', ''--extents'', ''90%FREE'', ''vg0'']"
  let ?s' = "\<lparr>world = [], procs = replicate 10 (''lvcreate'', ?args), mutex = Unlocked\<rparr>"
  have run5: "runCommand scripted ''lvcreate'' ?args (boot poolExists) =
      ((''Logical volume pool0 already exists'', Some (CmdError ''exit status 5'')), ?s')"
    by code_simp
  have run3: "runCommand scripted ''lvcreate'' ?args (boot noSuchGroup) =
      ((''Volume group vg0 not found'', Some (CmdError ''exit status 3'')), ?s')"
    by code_simp
  have free: "mutex (boot poolExists) = Unlocked" by (simp add: boot_def)
  show ?thesis
    using createLogicalThinPool_already_exists [OF run5]
      createLogicalThinPool_already_exists [OF run3] free
    by simp
qed

section \<open>Volume creation\<close>

lemma toggleactivateLV_2_run:
  "toggleactivateLV_2 exec vgname lvname True s =
    runCommand_2 exec ''lvchange'' [''-K'', vgname @ ''/'' @ lvname, ''-a'', ''y''] s"
  by (simp add: toggleactivateLV_2_def)

lemma create_2_create_failed:
  assumes "runCommand_2 exec ''lvcreate''
      (if parent \<noteq> [] then [''--name'', lvname, ''--snapshot'', vgname @ ''/'' @ parent]
       else [''--virtualsize'', size', ''--name'', lvname, ''--thin'', vgname @ ''/'' @ lvpoolname]) s
     = Some ((out1, Some e), s1)"
  shows "createLVMVolume_2 exec lvname vgname lvpoolname size' fstype parent kind s =
    Some ((out1, Some (WithMessage e ''Unable to create volume'')), s1)"
  using assms by (simp add: createLVMVolume_2_def split: if_splits)

lemma create_2_activate_failed:
  assumes "runCommand_2 exec ''lvcreate''
      (if parent \<noteq> [] then [''--name'', lvname, ''--snapshot'', vgname @ ''/'' @ parent]
       else [''--virtualsize'', size', ''--name'', lvname, ''--thin'', vgname @ ''/'' @ lvpoolname]) s
     = Some ((out1, None), s1)"
    and "toggleactivateLV_2 exec vgname lvname True s1 = Some ((out2, Some e), s2)"
  shows "createLVMVolume_2 exec lvname vgname lvpoolname size' fstype parent kind s =
    Some ((out2, Some (WithMessage e ''Unable to activate thin volume'')), s2)"
  using assms by (simp add: createLVMVolume_2_def split: if_splits)

lemma create_2_snapshot:
  assumes "parent \<noteq> []"
    and "runCommand_2 exec ''lvcreate''
      [''--name'', lvname, ''--snapshot'', vgname @ ''/'' @ parent] s = Some ((out1, None), s1)"
    and "toggleactivateLV_2 exec vgname lvname True s1 = Some ((out2, None), s2)"
  shows "createLVMVolume_2 exec lvname vgname lvpoolname size' fstype parent kind s =
    Some ((out2, None), s2)"
  using assms by (simp add: createLVMVolume_2_def)

lemma create_2_format:
  assumes "runCommand_2 exec ''lvcreate''
      [''--virtualsize'', size', ''--name'', lvname, ''--thin'', vgname @ ''/'' @ lvpoolname] s
     = Some ((out1, None), s1)"
    and "toggleactivateLV_2 exec vgname lvname True s1 = Some ((out2, None), s2)"
  shows "createLVMVolume_2 exec lvname vgname lvpoolname size' fstype [] kind s =
    runCommand_2 exec (''mkfs.'' @ fstype)
      ((if fstype = ''ext4'' then [''-E'', ''nodiscard,lazy_itable_init=0,lazy_journal_init=0'']
        else if fstype = ''xfs'' then [''-K''] else [])
       @ [filepath_Join [''/dev/'', vgname, lvname]]) s2"
  using assms by (simp add: createLVMVolume_2_def)

lemma create_2_cases:
  fixes exec :: "'w exec" and kind :: 'k
  assumes free: "mutex s = Unlocked"
    and cargs: "cargs = (if parent \<noteq> [] then [''--name'', lvname, ''--snapshot'', vgname @ ''/'' @ parent]
       else [''--virtualsize'', size', ''--name'', lvname, ''--thin'', vgname @ ''/'' @ lvpoolname])"
    and aargs: "aargs = [''-K'', vgname @ ''/'' @ lvname, ''-a'', ''y'']"
    and margs: "margs =
       (if fstype = ''ext4'' then [''-E'', ''nodiscard,lazy_itable_init=0,lazy_journal_init=0'']
        else if fstype = ''xfs'' then [''-K''] else [])
       @ [filepath_Join [''/dev/'', vgname, lvname]]"
  obtains
    (create_failed) out1 e s1 where
      "runCommand_2 exec ''lvcreate'' cargs s = Some ((out1, Some e), s1)"
      "procs s1 = procs s @ replicate 10 (''lvcreate'', cargs)"
      "createLVMVolume_2 exec lvname vgname lvpoolname size' fstype parent kind s =
         Some ((out1, Some (WithMessage e ''Unable to create volume'')), s1)"
  | (activate_failed) out1 s1 n out2 e s2 where
      "runCommand_2 exec ''lvcreate'' cargs s = Some ((out1, None), s1)"
      "1 \<le> n" "n \<le> 10" "procs s1 = procs s @ replicate n (''lvcreate'', cargs)"
      "toggleactivateLV_2 exec vgname lvname True s1 = Some ((out2, Some e), s2)"
      "procs s2 = procs s1 @ replicate 10 (''lvchange'', aargs)"
      "createLVMVolume_2 exec lvname vgname lvpoolname size' fstype parent kind s =
         Some ((out2, Some (WithMessage e ''Unable to activate thin volume'')), s2)"
  | (snapshot) out1 s1 n out2 s2 m where
      "parent \<noteq> []"
      "runCommand_2 exec ''lvcreate'' cargs s = Some ((out1, None), s1)"
      "1 \<le> n" "n \<le> 10" "procs s1 = procs s @ replicate n (''lvcreate'', cargs)"
      "toggleactivateLV_2 exec vgname lvname True s1 = Some ((out2, None), s2)"
      "1 \<le> m" "m \<le> 10" "procs s2 = procs s1 @ replicate m (''lvchange'', aargs)"
      "createLVMVolume_2 exec lvname vgname lvpoolname size' fstype parent kind s =
         Some ((out2, None), s2)"
  | (formatted) out1 s1 n out2 s2 m out3 err3 s3 k where
      "parent = []"
      "runCommand_2 exec ''lvcreate'' cargs s = Some ((out1, None), s1)"
      "1 \<le> n" "n \<le> 10" "procs s1 = procs s @ replicate n (''lvcreate'', cargs)"
      "toggleactivateLV_2 exec vgname lvname True s1 = Some ((out2, None), s2)"
      "1 \<le> m" "m \<le> 10" "procs s2 = procs s1 @ replicate m (''lvchange'', aargs)"
      "runCommand_2 exec (''mkfs.'' @ fstype) margs s2 = Some ((out3, err3), s3)"
      "1 \<le> k" "k \<le> 10" "procs s3 = procs s2 @ replicate k (''mkfs.'' @ fstype, margs)"
      "err3 \<noteq> None \<longrightarrow> k = 10"
      "createLVMVolume_2 exec lvname vgname lvpoolname size' fstype parent kind s =
         Some ((out3, err3), s3)"
proof -
  obtain out1 err1 s1 n where c: "runCommand_2 exec ''lvcreate'' cargs s = Some ((out1, err1), s1)"
    "mutex s1 = Unlocked" "1 \<le> n" "n \<le> 10" "procs s1 = procs s @ replicate n (''lvcreate'', cargs)"
    "err1 \<noteq> None \<longrightarrow> n = 10"
    by (rule runCommand_2_run [OF free])
  show thesis
  proof (cases err1)
    case (Some e)
    have "createLVMVolume_2 exec lvname vgname lvpoolname size' fstype parent kind s =
         Some ((out1, Some (WithMessage e ''Unable to create volume'')), s1)"
      using c(1) unfolding Some cargs by (rule create_2_create_failed)
    then show ?thesis using create_failed c Some by simp
  next
    case None
    note c1 = c(1) [unfolded None]
    obtain out2 err2 s2 m where a: "runCommand_2 exec ''lvchange'' aargs s1 = Some ((out2, err2), s2)"
      "mutex s2 = Unlocked" "1 \<le> m" "m \<le> 10" "procs s2 = procs s1 @ replicate m (''lvchange'', aargs)"
      "err2 \<noteq> None \<longrightarrow> m = 10"
      by (rule runCommand_2_run [OF c(2)])
    have a1: "toggleactivateLV_2 exec vgname lvname True s1 = Some ((out2, err2), s2)"
      using a(1) by (simp add: toggleactivateLV_2_run aargs)
    show ?thesis
    proof (cases err2)
      case (Some e)
      have "createLVMVolume_2 exec lvname vgname lvpoolname size' fstype parent kind s =
         Some ((out2, Some (WithMessage e ''Unable to activate thin volume'')), s2)"
        using c1 a1 unfolding Some cargs by (rule create_2_activate_failed)
      then show ?thesis using activate_failed [OF c1 c(3,4,5)] a1 a Some by simp
    next
      case None
      note a2 = a1 [unfolded None]
      show ?thesis
      proof (cases "parent = []")
        case False
        have "createLVMVolume_2 exec lvname vgname lvpoolname size' fstype parent kind s =
            Some ((out2, None), s2)"
          using False c1 a2 unfolding cargs by (simp add: create_2_snapshot)
        then show ?thesis using snapshot [OF False c1 c(3,4,5) a2 a(3,4,5)] by simp
      next
        case True
        obtain out3 err3 s3 k where
          f: "runCommand_2 exec (''mkfs.'' @ fstype) margs s2 = Some ((out3, err3), s3)"
          "mutex s3 = Unlocked" "1 \<le> k" "k \<le> 10"
          "procs s3 = procs s2 @ replicate k (''mkfs.'' @ fstype, margs)"
          "err3 \<noteq> None \<longrightarrow> k = 10"
          by (rule runCommand_2_run [OF a(2)])
        have "createLVMVolume_2 exec lvname vgname lvpoolname size' fstype parent kind s =
            runCommand_2 exec (''mkfs.'' @ fstype) margs s2"
          using c1 a2 unfolding cargs margs True by (simp add: create_2_format)
        then show ?thesis using formatted [OF True c1 c(3,4,5) a2 a(3,4,5) f(1,3,4,5,6)] f(1) by simp
      qed
    qed
  qed
qed

lemma create_2_spawned:
  fixes exec :: "'w exec" and kind :: 'k
  assumes free: "mutex s = Unlocked"
    and cargs: "cargs =
      (if parent \<noteq> [] then [''--name'', lvname, ''--snapshot'', vgname @ ''/'' @ parent]
       else [''--virtualsize'', size', ''--name'', lvname, ''--thin'', vgname @ ''/'' @ lvpoolname])"
  shows "\<exists>r s' n rest.
      createLVMVolume_2 exec lvname vgname lvpoolname size' fstype parent kind s = Some (r, s')
    \<and> 1 \<le> n \<and> spawned s s' = replicate n (''lvcreate'', cargs) @ rest
    \<and> (\<forall>p\<in>set rest. fst p \<noteq> ''lvcreate'')"
proof -
  define aargs where "aargs = [''-K'', vgname @ ''/'' @ lvname, ''-a'', ''y'']"
  define margs where "margs =
       (if fstype = ''ext4'' then [''-E'', ''nodiscard,lazy_itable_init=0,lazy_journal_init=0'']
        else if fstype = ''xfs'' then [''-K''] else [])
       @ [filepath_Join [''/dev/'', vgname, lvname]]"
  show ?thesis
    using free cargs aargs_def margs_def
  proof (cases rule: create_2_cases [where exec = exec and kind = kind])
    case (create_failed out1 e s1)
    have "spawned s s1 = replicate 10 (''lvcreate'', cargs) @ []"
      using create_failed(2) by simp
    with create_failed(3) show ?thesis
      by (intro exI [of _ "10::nat"] exI [of _ "[]"] exI conjI) (assumption | simp)+
  next
    case (activate_failed out1 s1 n out2 e s2)
    have "spawned s s2 = replicate n (''lvcreate'', cargs) @ replicate 10 (''lvchange'', aargs)"
      using activate_failed(4,6) by (simp add: spawned_def)
    with activate_failed(7,2) show ?thesis
      by (intro exI [of _ n] exI [of _ "replicate 10 (''lvchange'', aargs)"] exI conjI)
         (assumption | simp)+
  next
    case (snapshot out1 s1 n out2 s2 m)
    have "spawned s s2 = replicate n (''lvcreate'', cargs) @ replicate m (''lvchange'', aargs)"
      using snapshot(5,9) by (simp add: spawned_def)
    with snapshot(10,3) show ?thesis
      by (intro exI [of _ n] exI [of _ "replicate m (''lvchange'', aargs)"] exI conjI)
         (assumption | simp)+
  next
    case (formatted out1 s1 n out2 s2 m out3 err3 s3 k)
    have "spawned s s3 = replicate n (''lvcreate'', cargs)
        @ (replicate m (''lvchange'', aargs) @ replicate k (''mkfs.'' @ fstype, margs))"
      using formatted(5,9,13) by (simp add: spawned_def)
    with formatted(15,3) show ?thesis
      by (intro exI [of _ n]
            exI [of _ "replicate m (''lvchange'', aargs) @ replicate k (''mkfs.'' @ fstype, margs)"]
            exI conjI)
         (assumption | auto)+
  qed
qed

lemma createLVMVolume_run:
  "createLVMVolume exec Unlocked lvname vgname lvpoolname size' parent kind s =
    (case runCommand exec ''lvcreate''
        (if parent \<noteq> [] then [''--name'', lvname, ''--snapshot'', vgname @ ''/'' @ parent]
         else [''--virtualsize'', size', ''--name'', lvname, ''--thin'', vgname @ ''/'' @ lvpoolname]) s of
       ((out, err), s') \<Rightarrow> Some ((out, Wrap err ''Unable to create volume''), s'))"
  by (auto simp: createLVMVolume_def split: prod.splits)

lemma createLVMVolume_procs:
  fixes exec :: "'w exec" and kind :: 'k
  obtains r s' n where
    "createLVMVolume exec Unlocked lvname vgname lvpoolname size' parent kind s = Some (r, s')"
    "1 \<le> n" "n \<le> 10"
    "procs s' = procs s @ replicate n (''lvcreate'',
        (if parent \<noteq> [] then [''--name'', lvname, ''--snapshot'', vgname @ ''/'' @ parent]
         else [''--virtualsize'', size', ''--name'', lvname, ''--thin'', vgname @ ''/'' @ lvpoolname]))"
proof -
  let ?args = "if parent \<noteq> [] then [''--name'', lvname, ''--snapshot'', vgname @ ''/'' @ parent]
         else [''--virtualsize'', size', ''--name'', lvname, ''--thin'', vgname @ ''/'' @ lvpoolname]"
  obtain out err s' where r: "runCommand exec ''lvcreate'' ?args s = ((out, err), s')"
    by (metis surj_pair)
  obtain n where n: "1 \<le> n" "n \<le> 10" "procs s' = procs s @ replicate n (''lvcreate'', ?args)"
    using runCommand_procs [OF r] by auto
  have "createLVMVolume exec Unlocked lvname vgname lvpoolname size' parent kind s =
      Some ((out, Wrap err ''Unable to create volume''), s')"
    by (simp add: createLVMVolume_run r)
  then show ?thesis using n that by blast
qed

subsection \<open>The arguments of lvcreate\<close>

text \<open>
  Claim C9. The arguments of \<open>lvcreate\<close> depend on the parent alone. With a parent they are
  \<open>--name\<close>, the volume's name, \<open>--snapshot\<close> and \<open>group/parent\<close>: neither the size nor the pool
  occurs. Without a parent they are \<open>--virtualsize\<close>, the size, \<open>--name\<close>, the volume's name,
  \<open>--thin\<close> and \<open>group/pool\<close>. In the first listing every process the operation starts is this
  \<open>lvcreate\<close>; in the second listing, entered with the mutex free, the first processes are this
  \<open>lvcreate\<close> and no process after them is an \<open>lvcreate\<close>.
\<close>

theorem createLVMVolume_arguments:
  fixes exec :: "'w exec" and kind :: 'k
  shows
    "(parent \<noteq> [] \<longrightarrow>
        (\<exists>r s' n. createLVMVolume exec Unlocked lvname vgname lvpoolname size' parent kind s
            = Some (r, s')
          \<and> 1 \<le> n
          \<and> spawned s s' = replicate n
              (''lvcreate'', [''--name'', lvname, ''--snapshot'', vgname @ ''/'' @ parent])))
    \<and> (parent = [] \<longrightarrow>
        (\<exists>r s' n. createLVMVolume exec Unlocked lvname vgname lvpoolname size' parent kind s
            = Some (r, s')
          \<and> 1 \<le> n
          \<and> spawned s s' = replicate n
              (''lvcreate'', [''--virtualsize'', size', ''--name'', lvname, ''--thin'',
                              vgname @ ''/'' @ lvpoolname])))
    \<and> (mutex s = Unlocked \<and> parent \<noteq> [] \<longrightarrow>
        (\<exists>r s' n rest.
            createLVMVolume_2 exec lvname vgname lvpoolname size' fstype parent kind s = Some (r, s')
          \<and> 1 \<le> n
          \<and> spawned s s' = replicate n
              (''lvcreate'', [''--name'', lvname, ''--snapshot'', vgname @ ''/'' @ parent]) @ rest
          \<and> (\<forall>p\<in>set rest. fst p \<noteq> ''lvcreate'')))
    \<and> (mutex s = Unlocked \<and> parent = [] \<longrightarrow>
        (\<exists>r s' n rest.
            createLVMVolume_2 exec lvname vgname lvpoolname size' fstype parent kind s = Some (r, s')
          \<and> 1 \<le> n
          \<and> spawned s s' = replicate n
              (''lvcreate'', [''--virtualsize'', size', ''--name'', lvname, ''--thin'',
                              vgname @ ''/'' @ lvpoolname]) @ rest
          \<and> (\<forall>p\<in>set rest. fst p \<noteq> ''lvcreate'')))"
proof -
  obtain r s' n where first:
    "createLVMVolume exec Unlocked lvname vgname lvpoolname size' parent kind s = Some (r, s')"
    "1 \<le> n"
    "procs s' = procs s @ replicate n (''lvcreate'',
        (if parent \<noteq> [] then [''--name'', lvname, ''--snapshot'', vgname @ ''/'' @ parent]
         else [''--virtualsize'', size', ''--name'', lvname, ''--thin'', vgname @ ''/'' @ lvpoolname]))"
    by (rule createLVMVolume_procs)
  have sp: "spawned s s' = replicate n (''lvcreate'',
        (if parent \<noteq> [] then [''--name'', lvname, ''--snapshot'', vgname @ ''/'' @ parent]
         else [''--virtualsize'', size', ''--name'', lvname, ''--thin'', vgname @ ''/'' @ lvpoolname]))"
    using first(3) by simp
  have a: "parent \<noteq> [] \<longrightarrow>
        (\<exists>r s' n. createLVMVolume exec Unlocked lvname vgname lvpoolname size' parent kind s
            = Some (r, s')
          \<and> 1 \<le> n
          \<and> spawned s s' = replicate n
              (''lvcreate'', [''--name'', lvname, ''--snapshot'', vgname @ ''/'' @ parent]))"
    using first(1,2) sp by auto
  have b: "parent = [] \<longrightarrow>
        (\<exists>r s' n. createLVMVolume exec Unlocked lvname vgname lvpoolname size' parent kind s
            = Some (r, s')
          \<and> 1 \<le> n
          \<and> spawned s s' = replicate n
              (''lvcreate'', [''--virtualsize'', size', ''--name'', lvname, ''--thin'',
                              vgname @ ''/'' @ lvpoolname]))"
    using first(1,2) sp by auto
  have c: "mutex s = Unlocked \<and> parent \<noteq> [] \<longrightarrow>
        (\<exists>r s' n rest.
            createLVMVolume_2 exec lvname vgname lvpoolname size' fstype parent kind s = Some (r, s')
          \<and> 1 \<le> n
          \<and> spawned s s' = replicate n
              (''lvcreate'', [''--name'', lvname, ''--snapshot'', vgname @ ''/'' @ parent]) @ rest
          \<and> (\<forall>p\<in>set rest. fst p \<noteq> ''lvcreate''))"
  proof
    assume h: "mutex s = Unlocked \<and> parent \<noteq> []"
    then have "[''--name'', lvname, ''--snapshot'', vgname @ ''/'' @ parent] =
      (if parent \<noteq> [] then [''--name'', lvname, ''--snapshot'', vgname @ ''/'' @ parent]
       else [''--virtualsize'', size', ''--name'', lvname, ''--thin'', vgname @ ''/'' @ lvpoolname])"
      by simp
    from create_2_spawned [OF h [THEN conjunct1] this, of exec fstype kind]
    show "\<exists>r s' n rest.
            createLVMVolume_2 exec lvname vgname lvpoolname size' fstype parent kind s = Some (r, s')
          \<and> 1 \<le> n
          \<and> spawned s s' = replicate n
              (''lvcreate'', [''--name'', lvname, ''--snapshot'', vgname @ ''/'' @ parent]) @ rest
          \<and> (\<forall>p\<in>set rest. fst p \<noteq> ''lvcreate'')" .
  qed
  have d: "mutex s = Unlocked \<and> parent = [] \<longrightarrow>
        (\<exists>r s' n rest.
            createLVMVolume_2 exec lvname vgname lvpoolname size' fstype parent kind s = Some (r, s')
          \<and> 1 \<le> n
          \<and> spawned s s' = replicate n
              (''lvcreate'', [''--virtualsize'', size', ''--name'', lvname, ''--thin'',
                              vgname @ ''/'' @ lvpoolname]) @ rest
          \<and> (\<forall>p\<in>set rest. fst p \<noteq> ''lvcreate''))"
  proof
    assume h: "mutex s = Unlocked \<and> parent = []"
    then have "[''--virtualsize'', size', ''--name'', lvname, ''--thin'', vgname @ ''/'' @ lvpoolname] =
      (if parent \<noteq> [] then [''--name'', lvname, ''--snapshot'', vgname @ ''/'' @ parent]
       else [''--virtualsize'', size', ''--name'', lvname, ''--thin'', vgname @ ''/'' @ lvpoolname])"
      by simp
    from create_2_spawned [OF h [THEN conjunct1] this, of exec fstype kind]
    show "\<exists>r s' n rest.
            createLVMVolume_2 exec lvname vgname lvpoolname size' fstype parent kind s = Some (r, s')
          \<and> 1 \<le> n
          \<and> spawned s s' = replicate n
              (''lvcreate'', [''--virtualsize'', size', ''--name'', lvname, ''--thin'',
                              vgname @ ''/'' @ lvpoolname]) @ rest
          \<and> (\<forall>p\<in>set rest. fst p \<noteq> ''lvcreate'')" .
  qed
  from a b c d show ?thesis by (intro conjI)
qed

theorem createLVMVolume_arguments_witness:
  "createLVMVolume scripted Unlocked ''lv2'' ''vg0'' ''pool0'' ''1G'' ''lv1'' () (boot freshRun) =
     Some ((''Logical volume lv1 created.'', None),
       \<lparr>world = [([], None), (''done'', None)],
        procs = [(''lvcreate'', [''--name'', ''lv2'', ''--snapshot'', ''vg0/lv1''])],
        mutex = Unlocked\<rparr>)
   \<and> createLVMVolume scripted Unlocked ''lv1'' ''vg0'' ''pool0'' ''1G'' [] () (boot freshRun) =
     Some ((''Logical volume lv1 created.'', None),
       \<lparr>world = [([], None), (''done'', None)],
        procs = [(''lvcreate'', [''--virtualsize'', ''1G'', ''--name'', ''lv1'', ''--thin'', ''vg0/pool0''])],
        mutex = Unlocked\<rparr>)
   \<and> (\<exists>r s' n. createLVMVolume scripted Unlocked ''lv2'' ''vg0'' ''pool0'' ''1G'' ''lv1'' () (boot freshRun)
            = Some (r, s')
          \<and> 1 \<le> n
          \<and> spawned (boot freshRun) s' = replicate n
              (''lvcreate'', [''--name'', ''lv2'', ''--snapshot'', ''vg0/lv1'']))
   \<and> (\<exists>r s' n. createLVMVolume scripted Unlocked ''lv1'' ''vg0'' ''pool0'' ''1G'' [] () (boot freshRun)
            = Some (r, s')
          \<and> 1 \<le> n
          \<and> spawned (boot freshRun) s' = replicate n
              (''lvcreate'', [''--virtualsize'', ''1G'', ''--name'', ''lv1'', ''--thin'', ''vg0/pool0'']))
   \<and> (\<exists>r s' n rest.
          createLVMVolume_2 scripted ''lv2'' ''vg0'' ''pool0'' ''1G'' ''xfs'' ''lv1'' () (boot freshRun)
            = Some (r, s')
          \<and> 1 \<le> n
          \<and> spawned (boot freshRun) s' = replicate n
              (''lvcreate'', [''--name'', ''lv2'', ''--snapshot'', ''vg0/lv1'']) @ rest
          \<and> (\<forall>p\<in>set rest. fst p \<noteq> ''lvcreate''))
   \<and> (\<exists>r s' n rest.
          createLVMVolume_2 scripted ''lv1'' ''vg0'' ''pool0'' ''1G'' ''xfs'' [] () (boot freshRun)
            = Some (r, s')
          \<and> 1 \<le> n
          \<and> spawned (boot freshRun) s' = replicate n
              (''lvcreate'', [''--virtualsize'', ''1G'', ''--name'', ''lv1'', ''--thin'', ''vg0/pool0'']) @ rest
          \<and> (\<forall>p\<in>set rest. fst p \<noteq> ''lvcreate''))"
proof -
  have free: "mutex (boot freshRun) = Unlocked" by (simp add: boot_def)
  have parent: "''lv1'' \<noteq> []" by simp
  note snap = createLVMVolume_arguments [where exec = scripted and kind = "()" and s = "boot freshRun"
      and lvname = "''lv2''" and vgname = "''vg0''" and lvpoolname = "''pool0''" and size' = "''1G''"
      and fstype = "''xfs''" and parent = "''lv1''"]
  note thin = createLVMVolume_arguments [where exec = scripted and kind = "()" and s = "boot freshRun"
      and lvname = "''lv1''" and vgname = "''vg0''" and lvpoolname = "''pool0''" and size' = "''1G''"
      and fstype = "''xfs''" and parent = "[]"]
  have one: "createLVMVolume scripted Unlocked ''lv2'' ''vg0'' ''pool0'' ''1G'' ''lv1'' () (boot freshRun) =
     Some ((''Logical volume lv1 created.'', None),
       \<lparr>world = [([], None), (''done'', None)],
        procs = [(''lvcreate'', [''--name'', ''lv2'', ''--snapshot'', ''vg0/lv1''])],
        mutex = Unlocked\<rparr>)"
    by code_simp
  have two: "createLVMVolume scripted Unlocked ''lv1'' ''vg0'' ''pool0'' ''1G'' [] () (boot freshRun) =
     Some ((''Logical volume lv1 created.'', None),
       \<lparr>world = [([], None), (''done'', None)],
        procs = [(''lvcreate'', [''--virtualsize'', ''1G'', ''--name'', ''lv1'', ''--thin'', ''vg0/pool0''])],
        mutex = Unlocked\<rparr>)"
    by code_simp
  show ?thesis
    using one two
      snap [THEN conjunct1, THEN mp, OF parent]
      thin [THEN conjunct2, THEN conjunct1, THEN mp, OF refl]
      snap [THEN conjunct2, THEN conjunct2, THEN conjunct1, THEN mp, OF conjI, OF free parent]
      thin [THEN conjunct2, THEN conjunct2, THEN conjunct2, THEN mp, OF conjI, OF free refl]
    by simp
qed

subsection \<open>When the volume is formatted\<close>

text \<open>
  Claim C5, as amended. The second listing's \<open>createLVMVolume\<close>, entered with the mutex free,
  returns. With a parent it runs no \<open>mkfs\<close>. Without a parent it runs \<open>mkfs\<close> if and only if the
  create step and then the activation step have returned without error; and when they have, the
  operation goes on from the state the activation left to run \<open>mkfs.<fstype>\<close> there, at least
  once, and returns what that run returns: every \<open>mkfs\<close> comes after the activation has
  succeeded. The first listing's \<open>createLVMVolume\<close> runs \<open>lvcreate\<close> only, whatever the parent:
  there the format step is \<open>formatVolume\<close>, which the operation does not call.
\<close>

theorem createLVMVolume_2_mkfs_only_without_parent:
  fixes exec :: "'w exec" and kind :: 'k
  assumes "mutex s = Unlocked"
  shows "\<exists>r s'. createLVMVolume_2 exec lvname vgname lvpoolname size' fstype parent kind s = Some (r, s')
    \<and> (parent \<noteq> [] \<longrightarrow> (\<forall>p\<in>set (spawned s s'). \<not> prefix ''mkfs.'' (fst p)))
    \<and> (parent = [] \<longrightarrow>
         ((\<exists>p\<in>set (spawned s s'). prefix ''mkfs.'' (fst p)) \<longleftrightarrow>
          (\<exists>out1 s1 out2 s2.
              runCommand_2 exec ''lvcreate''
                [''--virtualsize'', size', ''--name'', lvname, ''--thin'', vgname @ ''/'' @ lvpoolname] s
                = Some ((out1, None), s1)
            \<and> toggleactivateLV_2 exec vgname lvname True s1 = Some ((out2, None), s2))))
    \<and> (\<forall>out1 s1 out2 s2.
          parent = []
        \<and> runCommand_2 exec ''lvcreate''
              [''--virtualsize'', size', ''--name'', lvname, ''--thin'', vgname @ ''/'' @ lvpoolname] s
              = Some ((out1, None), s1)
        \<and> toggleactivateLV_2 exec vgname lvname True s1 = Some ((out2, None), s2) \<longrightarrow>
          Some (r, s') =
            runCommand_2 exec (''mkfs.'' @ fstype)
              ((if fstype = ''ext4'' then [''-E'', ''nodiscard,lazy_itable_init=0,lazy_journal_init=0'']
                else if fstype = ''xfs'' then [''-K''] else [])
               @ [filepath_Join [''/dev/'', vgname, lvname]]) s2
        \<and> (\<exists>k. 1 \<le> k \<and> spawned s2 s' = replicate k (''mkfs.'' @ fstype,
              (if fstype = ''ext4'' then [''-E'', ''nodiscard,lazy_itable_init=0,lazy_journal_init=0'']
                else if fstype = ''xfs'' then [''-K''] else [])
               @ [filepath_Join [''/dev/'', vgname, lvname]]))
        \<and> spawned s s' = spawned s s2 @ spawned s2 s'
        \<and> (\<forall>p\<in>set (spawned s s2). \<not> prefix ''mkfs.'' (fst p)))
    \<and> (\<exists>r1 s1'. createLVMVolume exec Unlocked lvname vgname lvpoolname size' parent kind s
            = Some (r1, s1')
          \<and> (\<forall>p\<in>set (spawned s s1'). fst p = ''lvcreate''))"
proof -
  define cargs where "cargs =
    (if parent \<noteq> [] then [''--name'', lvname, ''--snapshot'', vgname @ ''/'' @ parent]
     else [''--virtualsize'', size', ''--name'', lvname, ''--thin'', vgname @ ''/'' @ lvpoolname])"
  define thin where
    "thin = [''--virtualsize'', size', ''--name'', lvname, ''--thin'', vgname @ ''/'' @ lvpoolname]"
  define aargs where "aargs = [''-K'', vgname @ ''/'' @ lvname, ''-a'', ''y'']"
  define margs where "margs =
       (if fstype = ''ext4'' then [''-E'', ''nodiscard,lazy_itable_init=0,lazy_journal_init=0'']
        else if fstype = ''xfs'' then [''-K''] else [])
       @ [filepath_Join [''/dev/'', vgname, lvname]]"
  define ok where "ok \<longleftrightarrow> (\<exists>out1 s1 out2 s2.
      runCommand_2 exec ''lvcreate'' thin s = Some ((out1, None), s1)
    \<and> toggleactivateLV_2 exec vgname lvname True s1 = Some ((out2, None), s2))"
  have thin: "parent = [] \<Longrightarrow> cargs = thin"
    by (simp add: cargs_def thin_def)
  have first: "\<exists>r1 s1'. createLVMVolume exec Unlocked lvname vgname lvpoolname size' parent kind s
            = Some (r1, s1') \<and> (\<forall>p\<in>set (spawned s s1'). fst p = ''lvcreate'')"
  proof -
    obtain r s' n where
      "createLVMVolume exec Unlocked lvname vgname lvpoolname size' parent kind s = Some (r, s')"
      "procs s' = procs s @ replicate n (''lvcreate'', cargs)"
      unfolding cargs_def by (rule createLVMVolume_procs)
    then show ?thesis by (auto simp: spawned_def)
  qed
  have nomkfs: "\<not> prefix ''mkfs.'' ''lvcreate''" "\<not> prefix ''mkfs.'' ''lvchange''"
    by simp_all
  have summary: "\<exists>r s'.
      createLVMVolume_2 exec lvname vgname lvpoolname size' fstype parent kind s = Some (r, s')
    \<and> ((\<exists>p\<in>set (spawned s s'). prefix ''mkfs.'' (fst p)) \<longleftrightarrow> parent = [] \<and> ok)"
    using assms cargs_def aargs_def margs_def
  proof (cases rule: create_2_cases [where exec = exec and kind = kind])
    case (create_failed out1 e s1)
    have sp: "spawned s s1 = replicate 10 (''lvcreate'', cargs)"
      using create_failed(2) by simp
    have "\<not> (parent = [] \<and> ok)"
      using create_failed(1) thin by (auto simp: ok_def)
    moreover have "\<not> (\<exists>p\<in>set (spawned s s1). prefix ''mkfs.'' (fst p))"
      using sp nomkfs by auto
    ultimately show ?thesis using create_failed(3) by blast
  next
    case (activate_failed out1 s1 n out2 e s2)
    have sp: "spawned s s2 = replicate n (''lvcreate'', cargs) @ replicate 10 (''lvchange'', aargs)"
      using activate_failed(4,6) by (simp add: spawned_def)
    have "\<not> (parent = [] \<and> ok)"
      using activate_failed(1,5) thin by (auto simp: ok_def)
    moreover have "\<not> (\<exists>p\<in>set (spawned s s2). prefix ''mkfs.'' (fst p))"
      using sp nomkfs by auto
    ultimately show ?thesis using activate_failed(7) by blast
  next
    case (snapshot out1 s1 n out2 s2 m)
    have sp: "spawned s s2 = replicate n (''lvcreate'', cargs) @ replicate m (''lvchange'', aargs)"
      using snapshot(5,9) by (simp add: spawned_def)
    have "\<not> (\<exists>p\<in>set (spawned s s2). prefix ''mkfs.'' (fst p))"
      using sp nomkfs by auto
    then show ?thesis using snapshot(1,10) by blast
  next
    case (formatted out1 s1 n out2 s2 m out3 err3 s3 k)
    have sp: "spawned s s3 = replicate n (''lvcreate'', cargs) @ replicate m (''lvchange'', aargs)
        @ replicate k (''mkfs.'' @ fstype, margs)"
      using formatted(5,9,13) by (simp add: spawned_def)
    have "ok"
      using formatted(1,2,6) thin unfolding ok_def by auto
    moreover have "\<exists>p\<in>set (spawned s s3). prefix ''mkfs.'' (fst p)"
      using sp formatted(11) by auto
    ultimately show ?thesis using formatted(1,15) by blast
  qed
  then obtain r s' where
    ret: "createLVMVolume_2 exec lvname vgname lvpoolname size' fstype parent kind s = Some (r, s')"
    and ran: "(\<exists>p\<in>set (spawned s s'). prefix ''mkfs.'' (fst p)) \<longleftrightarrow> parent = [] \<and> ok"
    by blast
  have with_parent: "parent \<noteq> [] \<longrightarrow> (\<forall>p\<in>set (spawned s s'). \<not> prefix ''mkfs.'' (fst p))"
    using ran by blast
  have without: "parent = [] \<longrightarrow>
         ((\<exists>p\<in>set (spawned s s'). prefix ''mkfs.'' (fst p)) \<longleftrightarrow>
          (\<exists>out1 s1 out2 s2.
              runCommand_2 exec ''lvcreate'' thin s = Some ((out1, None), s1)
            \<and> toggleactivateLV_2 exec vgname lvname True s1 = Some ((out2, None), s2)))"
    using ran unfolding ok_def by blast
  have goes_on: "Some (r, s') = runCommand_2 exec (''mkfs.'' @ fstype) margs s2
        \<and> (\<exists>k. 1 \<le> k \<and> spawned s2 s' = replicate k (''mkfs.'' @ fstype, margs))
        \<and> spawned s s' = spawned s s2 @ spawned s2 s'
        \<and> (\<forall>p\<in>set (spawned s s2). \<not> prefix ''mkfs.'' (fst p))"
    if h: "parent = []
        \<and> runCommand_2 exec ''lvcreate'' thin s = Some ((out1, None), s1)
        \<and> toggleactivateLV_2 exec vgname lvname True s1 = Some ((out2, None), s2)"
    for out1 s1 out2 s2
  proof -
    have p: "parent = []" using h by (rule conjunct1)
    have c: "runCommand_2 exec ''lvcreate'' thin s = Some ((out1, None), s1)"
      using h by blast
    have a: "toggleactivateLV_2 exec vgname lvname True s1 = Some ((out2, None), s2)"
      using h by blast
    have a': "runCommand_2 exec ''lvchange'' aargs s1 = Some ((out2, None), s2)"
      using a by (simp add: toggleactivateLV_2_run aargs_def)
    obtain n where n: "procs s1 = procs s @ replicate n (''lvcreate'', thin)"
      using runCommand_procs [OF runCommand_2_Some(3) [OF c]] by auto
    obtain m where m: "procs s2 = procs s1 @ replicate m (''lvchange'', aargs)"
      using runCommand_procs [OF runCommand_2_Some(3) [OF a']] by auto
    have free: "mutex s2 = Unlocked" using a' by (rule runCommand_2_Some)
    obtain out3 err3 s3 k where
      f: "runCommand_2 exec (''mkfs.'' @ fstype) margs s2 = Some ((out3, err3), s3)"
      "1 \<le> k" "procs s3 = procs s2 @ replicate k (''mkfs.'' @ fstype, margs)"
      by (rule runCommand_2_run [OF free])
    have eq: "createLVMVolume_2 exec lvname vgname lvpoolname size' fstype parent kind s =
        runCommand_2 exec (''mkfs.'' @ fstype) margs s2"
      using create_2_format [OF c [unfolded thin_def] a, of fstype kind]
      by (simp add: p margs_def)
    then have s': "s' = s3" and r: "r = (out3, err3)"
      using ret f(1) by simp_all
    have one: "Some (r, s') = runCommand_2 exec (''mkfs.'' @ fstype) margs s2"
      using eq ret by simp
    have two: "\<exists>k. 1 \<le> k \<and> spawned s2 s' = replicate k (''mkfs.'' @ fstype, margs)"
      using f(2,3) unfolding s' by (intro exI [of _ k]) simp
    have three: "spawned s s' = spawned s s2 @ spawned s2 s'"
      unfolding s' using n m f(3) by (simp add: spawned_def)
    have four: "\<forall>p\<in>set (spawned s s2). \<not> prefix ''mkfs.'' (fst p)"
      using n m nomkfs by (auto simp: spawned_def)
    from one two three four show ?thesis by (intro conjI)
  qed
  have goes_on_all: "\<forall>out1 s1 out2 s2.
          parent = []
        \<and> runCommand_2 exec ''lvcreate'' thin s = Some ((out1, None), s1)
        \<and> toggleactivateLV_2 exec vgname lvname True s1 = Some ((out2, None), s2) \<longrightarrow>
          Some (r, s') = runCommand_2 exec (''mkfs.'' @ fstype) margs s2
        \<and> (\<exists>k. 1 \<le> k \<and> spawned s2 s' = replicate k (''mkfs.'' @ fstype, margs))
        \<and> spawned s s' = spawned s s2 @ spawned s2 s'
        \<and> (\<forall>p\<in>set (spawned s s2). \<not> prefix ''mkfs.'' (fst p))"
    using goes_on by blast
  note parts = ret with_parent without [unfolded thin_def] goes_on_all [unfolded thin_def margs_def]
    first
  show ?thesis
    by (rule exI [of _ r], rule exI [of _ s'], intro conjI) (rule parts)+
qed

text \<open>
  Claim C5 as it is written fails where it says that every call without a parent runs \<open>mkfs\<close>.
  The first listing's \<open>createLVMVolume\<close>, called without a parent, succeeds and has run \<open>lvcreate\<close>
  alone. The second listing's, when \<open>lvcreate\<close> fails, returns after the ten attempts and has run
  no \<open>mkfs\<close>.
\<close>

theorem createLVMVolume_without_parent_no_mkfs:
  "createLVMVolume scripted Unlocked ''lv1'' ''vg0'' ''pool0'' ''1G'' [] () (boot freshRun) =
     Some ((''Logical volume lv1 created.'', None),
       \<lparr>world = [([], None), (''done'', None)],
        procs = [(''lvcreate'', [''--virtualsize'', ''1G'', ''--name'', ''lv1'', ''--thin'', ''vg0/pool0''])],
        mutex = Unlocked\<rparr>)
   \<and> createLVMVolume_2 scripted ''lv1'' ''vg0'' ''pool0'' ''1G'' ''ext4'' [] () (boot noSuchGroup) =
     Some ((''Volume group vg0 not found'',
            Some (WithMessage (CmdError ''exit status 3'') ''Unable to create volume'')),
       \<lparr>world = [],
        procs = replicate 10
          (''lvcreate'', [''--virtualsize'', ''1G'', ''--name'', ''lv1'', ''--thin'', ''vg0/pool0'']),
        mutex = Unlocked\<rparr>)"
  by code_simp

theorem createLVMVolume_2_mkfs_only_without_parent_witness:
  "createLVMVolume_2 scripted ''lv1'' ''vg0'' ''pool0'' ''1G'' ''ext4'' [] () (boot freshRun) =
     Some ((''done'', None),
       \<lparr>world = [],
        procs = [(''lvcreate'', [''--virtualsize'', ''1G'', ''--name'', ''lv1'', ''--thin'', ''vg0/pool0'']),
                 (''lvchange'', [''-K'', ''vg0/lv1'', ''-a'', ''y'']),
                 (''mkfs.ext4'', [''-E'', ''nodiscard,lazy_itable_init=0,lazy_journal_init=0'',
                                  ''/dev/vg0/lv1''])],
        mutex = Unlocked\<rparr>)
   \<and> (\<exists>r s'. createLVMVolume_2 scripted ''lv1'' ''vg0'' ''pool0'' ''1G'' ''ext4'' [] () (boot freshRun)
          = Some (r, s')
        \<and> (\<exists>p\<in>set (spawned (boot freshRun) s'). prefix ''mkfs.'' (fst p)))
   \<and> (\<exists>r s'. createLVMVolume_2 scripted ''lv2'' ''vg0'' ''pool0'' ''1G'' ''ext4'' ''lv1'' () (boot freshRun)
          = Some (r, s')
        \<and> (\<forall>p\<in>set (spawned (boot freshRun) s'). \<not> prefix ''mkfs.'' (fst p)))
   \<and> createLVMVolume_2 scripted ''lv2'' ''vg0'' ''pool0'' ''1G'' ''ext4'' ''lv1'' () (boot freshRun) =
     Some (([], None),
       \<lparr>world = [(''done'', None)],
        procs = [(''lvcreate'', [''--name'', ''lv2'', ''--snapshot'', ''vg0/lv1'']),
                 (''lvchange'', [''-K'', ''vg0/lv2'', ''-a'', ''y''])],
        mutex = Unlocked\<rparr>)"
proof -
  let ?thin = "[''--virtualsize'', ''1G'', ''--name'', ''lv1'', ''--thin'', ''vg0'' @ ''/'' @ ''pool0'']"
  let ?created = "\<lparr>world = [([], None), (''done'', None)],
         procs = [(''lvcreate'', [''--virtualsize'', ''1G'', ''--name'', ''lv1'', ''--thin'', ''vg0/pool0''])],
         mutex = Unlocked\<rparr>"
  let ?activated = "\<lparr>world = [(''done'', None)],
         procs = [(''lvcreate'', [''--virtualsize'', ''1G'', ''--name'', ''lv1'', ''--thin'', ''vg0/pool0'']),
                  (''lvchange'', [''-K'', ''vg0/lv1'', ''-a'', ''y''])],
         mutex = Unlocked\<rparr>"
  let ?margs = "(if ''ext4'' = ''ext4'' then [''-E'', ''nodiscard,lazy_itable_init=0,lazy_journal_init=0'']
                else if ''ext4'' = ''xfs'' then [''-K''] else [])
               @ [filepath_Join [''/dev/'', ''vg0'', ''lv1'']]"
  have free: "mutex (boot freshRun) = Unlocked" by (simp add: boot_def)
  have steps: "([]::string) = []
      \<and> runCommand_2 scripted ''lvcreate'' ?thin (boot freshRun) =
          Some ((''Logical volume lv1 created.'', None), ?created)
      \<and> toggleactivateLV_2 scripted ''vg0'' ''lv1'' True ?created = Some (([], None), ?activated)"
    by code_simp
  have mkfs: "runCommand_2 scripted (''mkfs.'' @ ''ext4'') ?margs ?activated =
     Some ((''done'', None),
       \<lparr>world = [],
        procs = [(''lvcreate'', [''--virtualsize'', ''1G'', ''--name'', ''lv1'', ''--thin'', ''vg0/pool0'']),
                 (''lvchange'', [''-K'', ''vg0/lv1'', ''-a'', ''y'']),
                 (''mkfs.ext4'', [''-E'', ''nodiscard,lazy_itable_init=0,lazy_journal_init=0'',
                                  ''/dev/vg0/lv1''])],
        mutex = Unlocked\<rparr>)"
    by code_simp
  obtain r s' where
    ret: "createLVMVolume_2 scripted ''lv1'' ''vg0'' ''pool0'' ''1G'' ''ext4'' [] () (boot freshRun)
        = Some (r, s')"
    and ran: "([]::string) = [] \<longrightarrow>
         ((\<exists>p\<in>set (spawned (boot freshRun) s'). prefix ''mkfs.'' (fst p)) \<longleftrightarrow>
          (\<exists>out1 s1 out2 s2.
              runCommand_2 scripted ''lvcreate'' ?thin (boot freshRun) = Some ((out1, None), s1)
            \<and> toggleactivateLV_2 scripted ''vg0'' ''lv1'' True s1 = Some ((out2, None), s2)))"
    and goes_on: "\<forall>out1 s1 out2 s2.
          ([]::string) = []
        \<and> runCommand_2 scripted ''lvcreate'' ?thin (boot freshRun) = Some ((out1, None), s1)
        \<and> toggleactivateLV_2 scripted ''vg0'' ''lv1'' True s1 = Some ((out2, None), s2) \<longrightarrow>
          Some (r, s') = runCommand_2 scripted (''mkfs.'' @ ''ext4'') ?margs s2
        \<and> (\<exists>k. 1 \<le> k \<and> spawned s2 s' = replicate k (''mkfs.'' @ ''ext4'', ?margs))
        \<and> spawned (boot freshRun) s' = spawned (boot freshRun) s2 @ spawned s2 s'
        \<and> (\<forall>p\<in>set (spawned (boot freshRun) s2). \<not> prefix ''mkfs.'' (fst p))"
    using createLVMVolume_2_mkfs_only_without_parent [OF free,
        of scripted "''lv1''" "''vg0''" "''pool0''" "''1G''" "''ext4''" "[]" "()"]
    by (elim exE conjE) (rule that; assumption)
  have "Some (r, s') = runCommand_2 scripted (''mkfs.'' @ ''ext4'') ?margs ?activated"
    using goes_on [rule_format, OF steps] by (rule conjunct1)
  then have one: "createLVMVolume_2 scripted ''lv1'' ''vg0'' ''pool0'' ''1G'' ''ext4'' [] () (boot freshRun) =
     Some ((''done'', None),
       \<lparr>world = [],
        procs = [(''lvcreate'', [''--virtualsize'', ''1G'', ''--name'', ''lv1'', ''--thin'', ''vg0/pool0'']),
                 (''lvchange'', [''-K'', ''vg0/lv1'', ''-a'', ''y'']),
                 (''mkfs.ext4'', [''-E'', ''nodiscard,lazy_itable_init=0,lazy_journal_init=0'',
                                  ''/dev/vg0/lv1''])],
        mutex = Unlocked\<rparr>)"
    unfolding ret mkfs .
  have "\<exists>out1 s1 out2 s2.
              runCommand_2 scripted ''lvcreate'' ?thin (boot freshRun) = Some ((out1, None), s1)
            \<and> toggleactivateLV_2 scripted ''vg0'' ''lv1'' True s1 = Some ((out2, None), s2)"
    using steps [THEN conjunct2] by (intro exI)
  then have "\<exists>p\<in>set (spawned (boot freshRun) s'). prefix ''mkfs.'' (fst p)"
    using ran [THEN mp, OF refl] by (rule iffD2 [rotated])
  then have two: "\<exists>r s'. createLVMVolume_2 scripted ''lv1'' ''vg0'' ''pool0'' ''1G'' ''ext4'' [] () (boot freshRun)
          = Some (r, s')
        \<and> (\<exists>p\<in>set (spawned (boot freshRun) s'). prefix ''mkfs.'' (fst p))"
    using ret by blast
  have parent: "''lv1'' \<noteq> []" by simp
  obtain r2 s2' where
    ret2: "createLVMVolume_2 scripted ''lv2'' ''vg0'' ''pool0'' ''1G'' ''ext4'' ''lv1'' () (boot freshRun)
        = Some (r2, s2')"
    and none: "''lv1'' \<noteq> [] \<longrightarrow>
        (\<forall>p\<in>set (spawned (boot freshRun) s2'). \<not> prefix ''mkfs.'' (fst p))"
    using createLVMVolume_2_mkfs_only_without_parent [OF free,
        of scripted "''lv2''" "''vg0''" "''pool0''" "''1G''" "''ext4''" "''lv1''" "()"]
    by (elim exE conjE) (rule that; assumption)
  have three: "\<exists>r s'. createLVMVolume_2 scripted ''lv2'' ''vg0'' ''pool0'' ''1G'' ''ext4'' ''lv1'' () (boot freshRun)
          = Some (r, s')
        \<and> (\<forall>p\<in>set (spawned (boot freshRun) s'). \<not> prefix ''mkfs.'' (fst p))"
    using ret2 none [THEN mp, OF parent] by blast
  have four: "createLVMVolume_2 scripted ''lv2'' ''vg0'' ''pool0'' ''1G'' ''ext4'' ''lv1'' () (boot freshRun) =
     Some (([], None),
       \<lparr>world = [(''done'', None)],
        procs = [(''lvcreate'', [''--name'', ''lv2'', ''--snapshot'', ''vg0/lv1'']),
                 (''lvchange'', [''-K'', ''vg0/lv2'', ''-a'', ''y''])],
        mutex = Unlocked\<rparr>)"
    by code_simp
  from one two three four show ?thesis by (intro conjI)
qed

subsection \<open>Failing steps\<close>

text \<open>
  Claim C8, as amended. In the second listing's \<open>createLVMVolume\<close> a failure of the create step is
  returned at once under the message \<open>Unable to create volume\<close>, with \<open>lvcreate\<close> the only command
  started; a failure of the activation step is returned at once under the message
  \<open>Unable to activate thin volume\<close>, whose text differs from that of a create failure; a failure
  of the format step is returned as \<open>runCommand\<close> gave it, under no message. In each case the
  state returned is the one the failing step left, after its ten attempts: no command follows a
  failure.
\<close>

theorem createLVMVolume_2_step_failures:
  fixes exec :: "'w exec" and kind :: 'k
  assumes "cargs =
      (if parent \<noteq> [] then [''--name'', lvname, ''--snapshot'', vgname @ ''/'' @ parent]
       else [''--virtualsize'', size', ''--name'', lvname, ''--thin'', vgname @ ''/'' @ lvpoolname])"
    and "margs =
      (if fstype = ''ext4'' then [''-E'', ''nodiscard,lazy_itable_init=0,lazy_journal_init=0'']
       else if fstype = ''xfs'' then [''-K''] else [])
      @ [filepath_Join [''/dev/'', vgname, lvname]]"
  shows
    "(runCommand_2 exec ''lvcreate'' cargs s = Some ((outA, Some errA), sA) \<longrightarrow>
        createLVMVolume_2 exec lvname vgname lvpoolname size' fstype parent kind s =
          Some ((outA, Some (WithMessage errA ''Unable to create volume'')), sA)
        \<and> spawned s sA = replicate 10 (''lvcreate'', cargs))
    \<and> (runCommand_2 exec ''lvcreate'' cargs s = Some ((outB, None), sB)
        \<and> toggleactivateLV_2 exec vgname lvname True sB = Some ((outC, Some errC), sC) \<longrightarrow>
        createLVMVolume_2 exec lvname vgname lvpoolname size' fstype parent kind s =
          Some ((outC, Some (WithMessage errC ''Unable to activate thin volume'')), sC)
        \<and> spawned sB sC = replicate 10 (''lvchange'', [''-K'', vgname @ ''/'' @ lvname, ''-a'', ''y'']))
    \<and> (parent = []
        \<and> runCommand_2 exec ''lvcreate'' cargs s = Some ((outD, None), sD)
        \<and> toggleactivateLV_2 exec vgname lvname True sD = Some ((outE, None), sE)
        \<and> runCommand_2 exec (''mkfs.'' @ fstype) margs sE = Some ((outF, Some errF), sF) \<longrightarrow>
        createLVMVolume_2 exec lvname vgname lvpoolname size' fstype parent kind s =
          Some ((outF, Some errF), sF)
        \<and> spawned sE sF = replicate 10 (''mkfs.'' @ fstype, margs))
    \<and> Error (WithMessage errA ''Unable to create volume'')
        \<noteq> Error (WithMessage errC ''Unable to activate thin volume'')"
proof (intro conjI impI)
  assume c: "runCommand_2 exec ''lvcreate'' cargs s = Some ((outA, Some errA), sA)"
  show "createLVMVolume_2 exec lvname vgname lvpoolname size' fstype parent kind s =
          Some ((outA, Some (WithMessage errA ''Unable to create volume'')), sA)"
    using c unfolding assms(1) by (rule create_2_create_failed)
  show "spawned s sA = replicate 10 (''lvcreate'', cargs)"
    using c by (rule runCommand_2_failed)
next
  assume h: "runCommand_2 exec ''lvcreate'' cargs s = Some ((outB, None), sB)
        \<and> toggleactivateLV_2 exec vgname lvname True sB = Some ((outC, Some errC), sC)"
  show "createLVMVolume_2 exec lvname vgname lvpoolname size' fstype parent kind s =
          Some ((outC, Some (WithMessage errC ''Unable to activate thin volume'')), sC)"
    using h [THEN conjunct1] h [THEN conjunct2] unfolding assms(1)
    by (rule create_2_activate_failed)
  show "spawned sB sC = replicate 10 (''lvchange'', [''-K'', vgname @ ''/'' @ lvname, ''-a'', ''y''])"
    using h [THEN conjunct2] unfolding toggleactivateLV_2_run by (rule runCommand_2_failed)
next
  assume h: "parent = []
        \<and> runCommand_2 exec ''lvcreate'' cargs s = Some ((outD, None), sD)
        \<and> toggleactivateLV_2 exec vgname lvname True sD = Some ((outE, None), sE)
        \<and> runCommand_2 exec (''mkfs.'' @ fstype) margs sE = Some ((outF, Some errF), sF)"
  have p: "parent = []" using h by (rule conjunct1)
  have c: "runCommand_2 exec ''lvcreate''
        [''--virtualsize'', size', ''--name'', lvname, ''--thin'', vgname @ ''/'' @ lvpoolname] s
        = Some ((outD, None), sD)"
    using h [THEN conjunct2, THEN conjunct1] by (simp add: assms(1) p)
  have a: "toggleactivateLV_2 exec vgname lvname True sD = Some ((outE, None), sE)"
    using h [THEN conjunct2, THEN conjunct2, THEN conjunct1] .
  have f: "runCommand_2 exec (''mkfs.'' @ fstype) margs sE = Some ((outF, Some errF), sF)"
    using h [THEN conjunct2, THEN conjunct2, THEN conjunct2] .
  show "createLVMVolume_2 exec lvname vgname lvpoolname size' fstype parent kind s =
          Some ((outF, Some errF), sF)"
    using create_2_format [OF c a, of fstype kind] f by (simp add: p assms(2))
  show "spawned sE sF = replicate 10 (''mkfs.'' @ fstype, margs)"
    using f by (rule runCommand_2_failed)
next
  show "Error (WithMessage errA ''Unable to create volume'')
        \<noteq> Error (WithMessage errC ''Unable to activate thin volume'')"
    by simp
qed

text \<open>
  Claim C8 as it is written fails at the format step: here \<open>lvcreate\<close> and \<open>lvchange\<close> succeed and
  \<open>mkfs.ext4\<close> fails ten times, and the error returned is the tool's \<open>exit status 1\<close>, under no
  message that names the step.
\<close>

theorem createLVMVolume_2_format_failure_unwrapped:
  "createLVMVolume_2 scripted ''lv1'' ''vg0'' ''pool0'' ''1G'' ''ext4'' [] () (boot mkfsFails) =
     Some ((''mkfs.ext4: Device or resource busy'', Some (CmdError ''exit status 1'')),
       \<lparr>world = [],
        procs = [(''lvcreate'', [''--virtualsize'', ''1G'', ''--name'', ''lv1'', ''--thin'', ''vg0/pool0'']),
                 (''lvchange'', [''-K'', ''vg0/lv1'', ''-a'', ''y''])]
                @ replicate 10 (''mkfs.ext4'', [''-E'', ''nodiscard,lazy_itable_init=0,lazy_journal_init=0'',
                                  ''/dev/vg0/lv1'']),
        mutex = Unlocked\<rparr>)
   \<and> Error (CmdError ''exit status 1'') = ''exit status 1''"
  by code_simp

theorem createLVMVolume_2_step_failures_witness:
  "createLVMVolume_2 scripted ''lv1'' ''vg0'' ''pool0'' ''1G'' ''ext4'' [] () (boot noSuchGroup) =
     Some ((''Volume group vg0 not found'',
            Some (WithMessage (CmdError ''exit status 3'') ''Unable to create volume'')),
       \<lparr>world = [],
        procs = replicate 10
          (''lvcreate'', [''--virtualsize'', ''1G'', ''--name'', ''lv1'', ''--thin'', ''vg0/pool0'']),
        mutex = Unlocked\<rparr>)
   \<and> createLVMVolume_2 scripted ''lv1'' ''vg0'' ''pool0'' ''1G'' ''ext4'' [] () (boot activateFails) =
     Some ((''Failed to activate vg0/lv1'',
            Some (WithMessage (CmdError ''exit status 5'') ''Unable to activate thin volume'')),
       \<lparr>world = [],
        procs = (''lvcreate'', [''--virtualsize'', ''1G'', ''--name'', ''lv1'', ''--thin'', ''vg0/pool0''])
                # replicate 10 (''lvchange'', [''-K'', ''vg0/lv1'', ''-a'', ''y'']),
        mutex = Unlocked\<rparr>)
   \<and> createLVMVolume_2 scripted ''lv1'' ''vg0'' ''pool0'' ''1G'' ''ext4'' [] () (boot mkfsFails) =
     Some ((''mkfs.ext4: Device or resource busy'', Some (CmdError ''exit status 1'')),
       \<lparr>world = [],
        procs = [(''lvcreate'', [''--virtualsize'', ''1G'', ''--name'', ''lv1'', ''--thin'', ''vg0/pool0'']),
                 (''lvchange'', [''-K'', ''vg0/lv1'', ''-a'', ''y''])]
                @ replicate 10 (''mkfs.ext4'', [''-E'', ''nodiscard,lazy_itable_init=0,lazy_journal_init=0'',
                                  ''/dev/vg0/lv1'']),
        mutex = Unlocked\<rparr>)"
proof -
  let ?cargs = "[''--virtualsize'', ''1G'', ''--name'', ''lv1'', ''--thin'', ''vg0/pool0'']"
  let ?margs = "[''-E'', ''nodiscard,lazy_itable_init=0,lazy_journal_init=0'', ''/dev/vg0/lv1'']"
  let ?created = "\<lparr>world = ([], None) # replicate 10
                     (''mkfs.ext4: Device or resource busy'', Some (CmdError ''exit status 1'')),
                   procs = [(''lvcreate'', ?cargs)], mutex = Unlocked\<rparr>"
  let ?activated = "\<lparr>world = replicate 10
                     (''mkfs.ext4: Device or resource busy'', Some (CmdError ''exit status 1'')),
                   procs = [(''lvcreate'', ?cargs), (''lvchange'', [''-K'', ''vg0/lv1'', ''-a'', ''y''])],
                   mutex = Unlocked\<rparr>"
  have cargs: "?cargs =
      (if ([]::string) \<noteq> [] then [''--name'', ''lv1'', ''--snapshot'', ''vg0'' @ ''/'' @ []]
       else [''--virtualsize'', ''1G'', ''--name'', ''lv1'', ''--thin'', ''vg0'' @ ''/'' @ ''pool0''])"
    by simp
  have margs: "?margs =
      (if ''ext4'' = ''ext4'' then [''-E'', ''nodiscard,lazy_itable_init=0,lazy_journal_init=0'']
       else if ''ext4'' = ''xfs'' then [''-K''] else [])
      @ [filepath_Join [''/dev/'', ''vg0'', ''lv1'']]"
    by code_simp
  note steps = createLVMVolume_2_step_failures [OF cargs margs, where exec = scripted and kind = "()"]
  have c1: "runCommand_2 scripted ''lvcreate'' ?cargs (boot noSuchGroup) =
      Some ((''Volume group vg0 not found'', Some (CmdError ''exit status 3'')),
        \<lparr>world = [], procs = replicate 10 (''lvcreate'', ?cargs), mutex = Unlocked\<rparr>)"
    by code_simp
  have one: "createLVMVolume_2 scripted ''lv1'' ''vg0'' ''pool0'' ''1G'' ''ext4'' [] () (boot noSuchGroup) =
     Some ((''Volume group vg0 not found'',
            Some (WithMessage (CmdError ''exit status 3'') ''Unable to create volume'')),
       \<lparr>world = [], procs = replicate 10 (''lvcreate'', ?cargs), mutex = Unlocked\<rparr>)"
    using steps [THEN conjunct1, THEN mp, OF c1] by (rule conjunct1)
  have c2: "runCommand_2 scripted ''lvcreate'' ?cargs (boot activateFails) =
      Some ((''Logical volume lv1 created.'', None),
        \<lparr>world = replicate 10 (''  Failed to activate vg0/lv1'', Some (CmdError ''exit status 5'')),
         procs = [(''lvcreate'', ?cargs)], mutex = Unlocked\<rparr>)"
    by code_simp
  have a2: "toggleactivateLV_2 scripted ''vg0'' ''lv1'' True
        \<lparr>world = replicate 10 (''  Failed to activate vg0/lv1'', Some (CmdError ''exit status 5'')),
         procs = [(''lvcreate'', ?cargs)], mutex = Unlocked\<rparr> =
      Some ((''Failed to activate vg0/lv1'', Some (CmdError ''exit status 5'')),
        \<lparr>world = [],
         procs = (''lvcreate'', ?cargs) # replicate 10 (''lvchange'', [''-K'', ''vg0/lv1'', ''-a'', ''y'']),
         mutex = Unlocked\<rparr>)"
    by code_simp
  have two: "createLVMVolume_2 scripted ''lv1'' ''vg0'' ''pool0'' ''1G'' ''ext4'' [] () (boot activateFails) =
     Some ((''Failed to activate vg0/lv1'',
            Some (WithMessage (CmdError ''exit status 5'') ''Unable to activate thin volume'')),
       \<lparr>world = [],
        procs = (''lvcreate'', ?cargs) # replicate 10 (''lvchange'', [''-K'', ''vg0/lv1'', ''-a'', ''y'']),
        mutex = Unlocked\<rparr>)"
    using steps [THEN conjunct2, THEN conjunct1, THEN mp, OF conjI, OF c2 a2] by (rule conjunct1)
  have c3: "runCommand_2 scripted ''lvcreate'' ?cargs (boot mkfsFails) =
      Some ((''Logical volume lv1 created.'', None), ?created)"
    by code_simp
  have a3: "toggleactivateLV_2 scripted ''vg0'' ''lv1'' True ?created = Some (([], None), ?activated)"
    by code_simp
  have f3: "runCommand_2 scripted (''mkfs.'' @ ''ext4'') ?margs ?activated =
      Some ((''mkfs.ext4: Device or resource busy'', Some (CmdError ''exit status 1'')),
       \<lparr>world = [],
        procs = [(''lvcreate'', ?cargs), (''lvchange'', [''-K'', ''vg0/lv1'', ''-a'', ''y''])]
                @ replicate 10 (''mkfs.ext4'', ?margs),
        mutex = Unlocked\<rparr>)"
    by code_simp
  have three: "createLVMVolume_2 scripted ''lv1'' ''vg0'' ''pool0'' ''1G'' ''ext4'' [] () (boot mkfsFails) =
     Some ((''mkfs.ext4: Device or resource busy'', Some (CmdError ''exit status 1'')),
       \<lparr>world = [],
        procs = [(''lvcreate'', ?cargs), (''lvchange'', [''-K'', ''vg0/lv1'', ''-a'', ''y''])]
                @ replicate 10 (''mkfs.ext4'', ?margs),
        mutex = Unlocked\<rparr>)"
    using steps [THEN conjunct2, THEN conjunct2, THEN conjunct1, THEN mp, OF conjI, OF refl conjI,
        OF c3 conjI, OF a3 f3]
    by (rule conjunct1)
  from one two three show ?thesis by (intro conjI)
qed

section \<open>The format step\<close>

lemma formatVolume_procs:
  fixes exec :: "'w exec"
  obtains n where "1 \<le> n" "n \<le> 10"
    "procs (snd (formatVolume exec vgname lvname fstype s)) =
      procs s @ replicate n (''mkfs.'' @ fstype,
        (if fstype = ''ext4'' then [''-E'', ''nodiscard,lazy_itable_init=0,lazy_journal_init=0'']
         else if fstype = ''xfs'' then [''-K''] else [])
        @ [filepath_Join [''/dev/'', vgname, lvname]])"
proof -
  let ?args = "(if fstype = ''ext4'' then [''-E'', ''nodiscard,lazy_itable_init=0,lazy_journal_init=0'']
         else if fstype = ''xfs'' then [''-K''] else [])
        @ [filepath_Join [''/dev/'', vgname, lvname]]"
  obtain out err s' where r: "runCommand exec (''mkfs.'' @ fstype) ?args s = ((out, err), s')"
    by (metis surj_pair)
  obtain n where n: "1 \<le> n" "n \<le> 10" "procs s' = procs s @ replicate n (''mkfs.'' @ fstype, ?args)"
    using runCommand_procs [OF r] by auto
  have "formatVolume exec vgname lvname fstype s =
      (case runCommand exec (''mkfs.'' @ fstype) ?args s of ((out, err), s') \<Rightarrow> (err, s'))"
    by (simp add: formatVolume_def Let_def)
  then have "snd (formatVolume exec vgname lvname fstype s) = s'"
    unfolding r by simp
  then show ?thesis using n that by simp
qed

text \<open>
  Claim C7, as amended. The format step starts \<open>mkfs.<fstype>\<close> with the flags \<open>-E\<close> and
  \<open>nodiscard,lazy_itable_init=0,lazy_journal_init=0\<close> for \<open>ext4\<close>, the flag \<open>-K\<close> for \<open>xfs\<close> and
  no flag for any other type, followed in all cases by one last argument, the join of \<open>/dev/\<close>,
  the group and the volume. That join is \<open>/dev/<group>/<volume>\<close> when both names are path
  elements. This holds of \<open>formatVolume\<close> in the first listing and of the format step of
  \<open>createLVMVolume\<close> in the second, which is reached without a parent once the volume is created
  and activated.
\<close>

theorem formatVolume_flags:
  fixes exec :: "'w exec" and kind :: 'k
  shows "\<exists>n flags. 1 \<le> n
    \<and> spawned s (snd (formatVolume exec vgname lvname fstype s)) =
        replicate n (''mkfs.'' @ fstype, flags @ [filepath_Join [''/dev/'', vgname, lvname]])
    \<and> (fstype = ''ext4'' \<longrightarrow> flags = [''-E'', ''nodiscard,lazy_itable_init=0,lazy_journal_init=0''])
    \<and> (fstype = ''xfs'' \<longrightarrow> flags = [''-K''])
    \<and> (fstype \<noteq> ''ext4'' \<and> fstype \<noteq> ''xfs'' \<longrightarrow> flags = [])
    \<and> (pathElem vgname \<and> pathElem lvname \<longrightarrow>
          filepath_Join [''/dev/'', vgname, lvname] = ''/dev/'' @ vgname @ ''/'' @ lvname)
    \<and> (runCommand_2 exec ''lvcreate''
            [''--virtualsize'', size', ''--name'', lvname, ''--thin'', vgname @ ''/'' @ lvpoolname] s0
          = Some ((out1, None), s1)
        \<and> toggleactivateLV_2 exec vgname lvname True s1 = Some ((out2, None), s2) \<longrightarrow>
          createLVMVolume_2 exec lvname vgname lvpoolname size' fstype [] kind s0 =
            runCommand_2 exec (''mkfs.'' @ fstype)
              (flags @ [filepath_Join [''/dev/'', vgname, lvname]]) s2)"
proof -
  define flags where "flags =
    (if fstype = ''ext4'' then [''-E'', ''nodiscard,lazy_itable_init=0,lazy_journal_init=0'']
     else if fstype = ''xfs'' then [''-K''] else [])"
  obtain n where n: "1 \<le> n"
    "procs (snd (formatVolume exec vgname lvname fstype s)) =
      procs s @ replicate n (''mkfs.'' @ fstype, flags @ [filepath_Join [''/dev/'', vgname, lvname]])"
    unfolding flags_def by (rule formatVolume_procs)
  have sp: "spawned s (snd (formatVolume exec vgname lvname fstype s)) =
        replicate n (''mkfs.'' @ fstype, flags @ [filepath_Join [''/dev/'', vgname, lvname]])"
    using n(2) by simp
  have ext4: "fstype = ''ext4'' \<longrightarrow> flags = [''-E'', ''nodiscard,lazy_itable_init=0,lazy_journal_init=0'']"
    by (simp add: flags_def)
  have xfs: "fstype = ''xfs'' \<longrightarrow> flags = [''-K'']"
    by (simp add: flags_def)
  have other: "fstype \<noteq> ''ext4'' \<and> fstype \<noteq> ''xfs'' \<longrightarrow> flags = []"
    by (simp add: flags_def)
  have path: "pathElem vgname \<and> pathElem lvname \<longrightarrow>
          filepath_Join [''/dev/'', vgname, lvname] = ''/dev/'' @ vgname @ ''/'' @ lvname"
    by (simp add: devpath_slash)
  have second: "runCommand_2 exec ''lvcreate''
            [''--virtualsize'', size', ''--name'', lvname, ''--thin'', vgname @ ''/'' @ lvpoolname] s0
          = Some ((out1, None), s1)
        \<and> toggleactivateLV_2 exec vgname lvname True s1 = Some ((out2, None), s2) \<longrightarrow>
          createLVMVolume_2 exec lvname vgname lvpoolname size' fstype [] kind s0 =
            runCommand_2 exec (''mkfs.'' @ fstype)
              (flags @ [filepath_Join [''/dev/'', vgname, lvname]]) s2"
    unfolding flags_def by (intro impI, elim conjE) (rule create_2_format)
  from n(1) sp ext4 xfs other path second show ?thesis
    by (intro exI [of _ n] exI [of _ flags] conjI)
qed

text \<open>
  Claim C7 as it is written fails at the last argument: with an empty group name
  \<open>filepath.Join\<close> leaves the empty element out, and \<open>mkfs.ext4\<close> is handed \<open>/dev/lv1\<close>, which is
  not \<open>/dev/\<close>, the group, \<open>/\<close> and the volume put together.
\<close>

theorem formatVolume_empty_group:
  "formatVolume scripted [] ''lv1'' ''ext4'' (boot freshRun) =
     (None,
      \<lparr>world = [([], None), (''done'', None)],
       procs = [(''mkfs.ext4'', [''-E'', ''nodiscard,lazy_itable_init=0,lazy_journal_init=0'',
                                 ''/dev/lv1''])],
       mutex = Unlocked\<rparr>)
   \<and> ''/dev/lv1'' \<noteq> ''/dev/'' @ [] @ ''/'' @ ''lv1''"
  by code_simp

theorem formatVolume_flags_witness:
  "(\<exists>n. 1 \<le> n
      \<and> spawned (boot freshRun) (snd (formatVolume scripted ''vg0'' ''lv1'' ''ext4'' (boot freshRun))) =
          replicate n (''mkfs.ext4'',
            [''-E'', ''nodiscard,lazy_itable_init=0,lazy_journal_init=0'', ''/dev/vg0/lv1'']))
   \<and> (\<exists>n. 1 \<le> n
      \<and> spawned (boot freshRun) (snd (formatVolume scripted ''vg0'' ''lv1'' ''xfs'' (boot freshRun))) =
          replicate n (''mkfs.xfs'', [''-K'', ''/dev/vg0/lv1'']))
   \<and> (\<exists>n. 1 \<le> n
      \<and> spawned (boot freshRun) (snd (formatVolume scripted ''vg0'' ''lv1'' ''btrfs'' (boot freshRun))) =
          replicate n (''mkfs.btrfs'', [''/dev/vg0/lv1'']))
   \<and> formatVolume scripted ''vg0'' ''lv1'' ''xfs'' (boot freshRun) =
     (None,
      \<lparr>world = [([], None), (''done'', None)],
       procs = [(''mkfs.xfs'', [''-K'', ''/dev/vg0/lv1''])],
       mutex = Unlocked\<rparr>)
   \<and> createLVMVolume_2 scripted ''lv1'' ''vg0'' ''pool0'' ''1G'' ''ext4'' [] () (boot freshRun) =
       runCommand_2 scripted ''mkfs.ext4''
         [''-E'', ''nodiscard,lazy_itable_init=0,lazy_journal_init=0'', ''/dev/vg0/lv1'']
         \<lparr>world = [(''done'', None)],
          procs = [(''lvcreate'', [''--virtualsize'', ''1G'', ''--name'', ''lv1'', ''--thin'', ''vg0/pool0'']),
                   (''lvchange'', [''-K'', ''vg0/lv1'', ''-a'', ''y''])],
          mutex = Unlocked\<rparr>"
proof -
  let ?created = "\<lparr>world = [([], None), (''done'', None)],
         procs = [(''lvcreate'', [''--virtualsize'', ''1G'', ''--name'', ''lv1'', ''--thin'', ''vg0/pool0''])],
         mutex = Unlocked\<rparr>"
  let ?activated = "\<lparr>world = [(''done'', None)],
          procs = [(''lvcreate'', [''--virtualsize'', ''1G'', ''--name'', ''lv1'', ''--thin'', ''vg0/pool0'']),
                   (''lvchange'', [''-K'', ''vg0/lv1'', ''-a'', ''y''])],
          mutex = Unlocked\<rparr>"
  have names: "pathElem ''vg0'' \<and> pathElem ''lv1''"
    by (simp add: pathElem_def)
  have steps: "runCommand_2 scripted ''lvcreate''
        [''--virtualsize'', ''1G'', ''--name'', ''lv1'', ''--thin'', ''vg0'' @ ''/'' @ ''pool0'']
        (boot freshRun) = Some ((''Logical volume lv1 created.'', None), ?created)
      \<and> toggleactivateLV_2 scripted ''vg0'' ''lv1'' True ?created = Some (([], None), ?activated)"
    by code_simp
  have each: "\<exists>n flags. 1 \<le> n
      \<and> spawned (boot freshRun) (snd (formatVolume scripted ''vg0'' ''lv1'' fstype (boot freshRun))) =
          replicate n (''mkfs.'' @ fstype, flags @ [''/dev/vg0/lv1''])
      \<and> (fstype = ''ext4'' \<longrightarrow> flags = [''-E'', ''nodiscard,lazy_itable_init=0,lazy_journal_init=0''])
      \<and> (fstype = ''xfs'' \<longrightarrow> flags = [''-K''])
      \<and> (fstype \<noteq> ''ext4'' \<and> fstype \<noteq> ''xfs'' \<longrightarrow> flags = [])
      \<and> (createLVMVolume_2 scripted ''lv1'' ''vg0'' ''pool0'' ''1G'' fstype [] () (boot freshRun) =
            runCommand_2 scripted (''mkfs.'' @ fstype) (flags @ [''/dev/vg0/lv1'']) ?activated)"
    for fstype
  proof -
    obtain n flags where n: "1 \<le> n"
      and sp: "spawned (boot freshRun) (snd (formatVolume scripted ''vg0'' ''lv1'' fstype (boot freshRun))) =
          replicate n (''mkfs.'' @ fstype, flags @ [filepath_Join [''/dev/'', ''vg0'', ''lv1'']])"
      and ext4: "fstype = ''ext4'' \<longrightarrow> flags = [''-E'', ''nodiscard,lazy_itable_init=0,lazy_journal_init=0'']"
      and xfs: "fstype = ''xfs'' \<longrightarrow> flags = [''-K'']"
      and other: "fstype \<noteq> ''ext4'' \<and> fstype \<noteq> ''xfs'' \<longrightarrow> flags = []"
      and path: "pathElem ''vg0'' \<and> pathElem ''lv1'' \<longrightarrow>
            filepath_Join [''/dev/'', ''vg0'', ''lv1''] = ''/dev/'' @ ''vg0'' @ ''/'' @ ''lv1''"
      and second: "runCommand_2 scripted ''lvcreate''
              [''--virtualsize'', ''1G'', ''--name'', ''lv1'', ''--thin'', ''vg0'' @ ''/'' @ ''pool0'']
              (boot freshRun) = Some ((''Logical volume lv1 created.'', None), ?created)
          \<and> toggleactivateLV_2 scripted ''vg0'' ''lv1'' True ?created = Some (([], None), ?activated) \<longrightarrow>
            createLVMVolume_2 scripted ''lv1'' ''vg0'' ''pool0'' ''1G'' fstype [] () (boot freshRun) =
              runCommand_2 scripted (''mkfs.'' @ fstype)
                (flags @ [filepath_Join [''/dev/'', ''vg0'', ''lv1'']]) ?activated"
      using formatVolume_flags [where exec = scripted and kind = "()" and s = "boot freshRun"
          and vgname = "''vg0''" and lvname = "''lv1''" and fstype = fstype and ?s0.0 = "boot freshRun"
          and size' = "''1G''" and lvpoolname = "''pool0''"
          and ?out1.0 = "''Logical volume lv1 created.''" and ?s1.0 = ?created
          and ?out2.0 = "[]" and ?s2.0 = ?activated]
      by (elim exE conjE) (rule that; assumption)
    have dev: "filepath_Join [''/dev/'', ''vg0'', ''lv1''] = ''/dev/vg0/lv1''"
      using path [THEN mp, OF names] by simp
    from n sp ext4 xfs other second [THEN mp, OF steps] show ?thesis
      unfolding dev by (intro exI [of _ n] exI [of _ flags] conjI)
  qed
  have ext4: "\<exists>n. 1 \<le> n
      \<and> spawned (boot freshRun) (snd (formatVolume scripted ''vg0'' ''lv1'' ''ext4'' (boot freshRun))) =
          replicate n (''mkfs.ext4'',
            [''-E'', ''nodiscard,lazy_itable_init=0,lazy_journal_init=0'', ''/dev/vg0/lv1''])"
    using each [of "''ext4''"] by auto
  have xfs: "\<exists>n. 1 \<le> n
      \<and> spawned (boot freshRun) (snd (formatVolume scripted ''vg0'' ''lv1'' ''xfs'' (boot freshRun))) =
          replicate n (''mkfs.xfs'', [''-K'', ''/dev/vg0/lv1''])"
    using each [of "''xfs''"] by auto
  have btrfs: "\<exists>n. 1 \<le> n
      \<and> spawned (boot freshRun) (snd (formatVolume scripted ''vg0'' ''lv1'' ''btrfs'' (boot freshRun))) =
          replicate n (''mkfs.btrfs'', [''/dev/vg0/lv1''])"
    using each [of "''btrfs''"] by auto
  have run: "formatVolume scripted ''vg0'' ''lv1'' ''xfs'' (boot freshRun) =
     (None,
      \<lparr>world = [([], None), (''done'', None)],
       procs = [(''mkfs.xfs'', [''-K'', ''/dev/vg0/lv1''])],
       mutex = Unlocked\<rparr>)"
    by code_simp
  have second: "createLVMVolume_2 scripted ''lv1'' ''vg0'' ''pool0'' ''1G'' ''ext4'' [] () (boot freshRun) =
       runCommand_2 scripted ''mkfs.ext4''
         [''-E'', ''nodiscard,lazy_itable_init=0,lazy_journal_init=0'', ''/dev/vg0/lv1''] ?activated"
    using each [of "''ext4''"] by auto
  from ext4 xfs btrfs run second show ?thesis by (intro conjI)
qed

text \<open>
  Claim C10. The format step never looks at \<open>fstype\<close> before it builds the command: whatever the
  string, the empty one included, every process \<open>formatVolume\<close> starts is \<open>mkfs.\<close> followed by
  \<open>fstype\<close>, at least one is started, and its last argument is the device path. The same holds of
  the format step of the second listing's \<open>createLVMVolume\<close>, once the volume is created and
  activated.
\<close>

theorem formatVolume_command_name:
  fixes exec :: "'w exec" and kind :: 'k
  shows "(\<exists>n args. 1 \<le> n
      \<and> spawned s (snd (formatVolume exec vgname lvname fstype s)) =
          replicate n (''mkfs.'' @ fstype, args)
      \<and> args \<noteq> [] \<and> last args = filepath_Join [''/dev/'', vgname, lvname])
    \<and> (runCommand_2 exec ''lvcreate''
            [''--virtualsize'', size', ''--name'', lvname, ''--thin'', vgname @ ''/'' @ lvpoolname] s0
          = Some ((out1, None), s1)
        \<and> toggleactivateLV_2 exec vgname lvname True s1 = Some ((out2, None), s2) \<longrightarrow>
          (\<exists>r s' k args.
              createLVMVolume_2 exec lvname vgname lvpoolname size' fstype [] kind s0 = Some (r, s')
            \<and> 1 \<le> k
            \<and> spawned s2 s' = replicate k (''mkfs.'' @ fstype, args)
            \<and> args \<noteq> [] \<and> last args = filepath_Join [''/dev/'', vgname, lvname]))"
proof (intro conjI impI)
  let ?args = "(if fstype = ''ext4'' then [''-E'', ''nodiscard,lazy_itable_init=0,lazy_journal_init=0'']
         else if fstype = ''xfs'' then [''-K''] else [])
        @ [filepath_Join [''/dev/'', vgname, lvname]]"
  obtain n where n: "1 \<le> n"
    "procs (snd (formatVolume exec vgname lvname fstype s)) =
      procs s @ replicate n (''mkfs.'' @ fstype, ?args)"
    by (rule formatVolume_procs)
  have "spawned s (snd (formatVolume exec vgname lvname fstype s)) =
      replicate n (''mkfs.'' @ fstype, ?args)"
    using n(2) by simp
  moreover have "?args \<noteq> []" "last ?args = filepath_Join [''/dev/'', vgname, lvname]"
    by simp_all
  ultimately show "\<exists>n args. 1 \<le> n
      \<and> spawned s (snd (formatVolume exec vgname lvname fstype s)) =
          replicate n (''mkfs.'' @ fstype, args)
      \<and> args \<noteq> [] \<and> last args = filepath_Join [''/dev/'', vgname, lvname]"
    using n(1) by (intro exI [of _ n] exI [of _ ?args] conjI)
next
  let ?args = "(if fstype = ''ext4'' then [''-E'', ''nodiscard,lazy_itable_init=0,lazy_journal_init=0'']
         else if fstype = ''xfs'' then [''-K''] else [])
        @ [filepath_Join [''/dev/'', vgname, lvname]]"
  assume h: "runCommand_2 exec ''lvcreate''
            [''--virtualsize'', size', ''--name'', lvname, ''--thin'', vgname @ ''/'' @ lvpoolname] s0
          = Some ((out1, None), s1)
        \<and> toggleactivateLV_2 exec vgname lvname True s1 = Some ((out2, None), s2)"
  have free: "mutex s2 = Unlocked"
    using h [THEN conjunct2] unfolding toggleactivateLV_2_run by (rule runCommand_2_Some)
  obtain out err s' k where f: "runCommand_2 exec (''mkfs.'' @ fstype) ?args s2 = Some ((out, err), s')"
    "1 \<le> k" "procs s' = procs s2 @ replicate k (''mkfs.'' @ fstype, ?args)"
    by (rule runCommand_2_run [OF free])
  have "createLVMVolume_2 exec lvname vgname lvpoolname size' fstype [] kind s0 = Some ((out, err), s')"
    using create_2_format [OF h [THEN conjunct1] h [THEN conjunct2], of fstype kind] f(1) by simp
  moreover have "spawned s2 s' = replicate k (''mkfs.'' @ fstype, ?args)"
    using f(3) by simp
  moreover have "?args \<noteq> []" "last ?args = filepath_Join [''/dev/'', vgname, lvname]"
    by simp_all
  ultimately show "\<exists>r s' k args.
              createLVMVolume_2 exec lvname vgname lvpoolname size' fstype [] kind s0 = Some (r, s')
            \<and> 1 \<le> k
            \<and> spawned s2 s' = replicate k (''mkfs.'' @ fstype, args)
            \<and> args \<noteq> [] \<and> last args = filepath_Join [''/dev/'', vgname, lvname]"
    using f(2) by (intro exI [of _ "(out, err)"] exI [of _ s'] exI [of _ k] exI [of _ ?args] conjI)
qed

theorem formatVolume_command_name_witness:
  "formatVolume scripted ''vg0'' ''lv1'' [] (boot freshRun) =
     (None,
      \<lparr>world = [([], None), (''done'', None)],
       procs = [(''mkfs.'', [''/dev/vg0/lv1''])],
       mutex = Unlocked\<rparr>)
   \<and> formatVolume scripted ''vg0'' ''lv1'' ''ntfs'' (boot freshRun) =
     (None,
      \<lparr>world = [([], None), (''done'', None)],
       procs = [(''mkfs.ntfs'', [''/dev/vg0/lv1''])],
       mutex = Unlocked\<rparr>)
   \<and> (\<exists>r s' k args.
          createLVMVolume_2 scripted ''lv1'' ''vg0'' ''pool0'' ''1G'' [] [] () (boot freshRun) = Some (r, s')
        \<and> 1 \<le> k
        \<and> spawned
            \<lparr>world = [(''done'', None)],
             procs = [(''lvcreate'', [''--virtualsize'', ''1G'', ''--name'', ''lv1'', ''--thin'', ''vg0/pool0'']),
                      (''lvchange'', [''-K'', ''vg0/lv1'', ''-a'', ''y''])],
             mutex = Unlocked\<rparr> s' = replicate k (''mkfs.'' @ [], args)
        \<and> args \<noteq> [] \<and> last args = filepath_Join [''/dev/'', ''vg0'', ''lv1''])
   \<and> createLVMVolume_2 scripted ''lv1'' ''vg0'' ''pool0'' ''1G'' [] [] () (boot freshRun) =
     Some ((''done'', None),
       \<lparr>world = [],
        procs = [(''lvcreate'', [''--virtualsize'', ''1G'', ''--name'', ''lv1'', ''--thin'', ''vg0/pool0'']),
                 (''lvchange'', [''-K'', ''vg0/lv1'', ''-a'', ''y'']),
                 (''mkfs.'', [''/dev/vg0/lv1''])],
        mutex = Unlocked\<rparr>)"
proof -
  let ?created = "\<lparr>world = [([], None), (''done'', None)],
         procs = [(''lvcreate'', [''--virtualsize'', ''1G'', ''--name'', ''lv1'', ''--thin'', ''vg0/pool0''])],
         mutex = Unlocked\<rparr>"
  let ?activated = "\<lparr>world = [(''done'', None)],
          procs = [(''lvcreate'', [''--virtualsize'', ''1G'', ''--name'', ''lv1'', ''--thin'', ''vg0/pool0'']),
                   (''lvchange'', [''-K'', ''vg0/lv1'', ''-a'', ''y''])],
          mutex = Unlocked\<rparr>"
  have empty: "formatVolume scripted ''vg0'' ''lv1'' [] (boot freshRun) =
     (None,
      \<lparr>world = [([], None), (''done'', None)],
       procs = [(''mkfs.'', [''/dev/vg0/lv1''])],
       mutex = Unlocked\<rparr>)"
    by code_simp
  have ntfs: "formatVolume scripted ''vg0'' ''lv1'' ''ntfs'' (boot freshRun) =
     (None,
      \<lparr>world = [([], None), (''done'', None)],
       procs = [(''mkfs.ntfs'', [''/dev/vg0/lv1''])],
       mutex = Unlocked\<rparr>)"
    by code_simp
  have steps: "runCommand_2 scripted ''lvcreate''
        [''--virtualsize'', ''1G'', ''--name'', ''lv1'', ''--thin'', ''vg0'' @ ''/'' @ ''pool0'']
        (boot freshRun) = Some ((''Logical volume lv1 created.'', None), ?created)
      \<and> toggleactivateLV_2 scripted ''vg0'' ''lv1'' True ?created = Some (([], None), ?activated)"
    by code_simp
  have whole: "createLVMVolume_2 scripted ''lv1'' ''vg0'' ''pool0'' ''1G'' [] [] () (boot freshRun) =
     Some ((''done'', None),
       \<lparr>world = [],
        procs = [(''lvcreate'', [''--virtualsize'', ''1G'', ''--name'', ''lv1'', ''--thin'', ''vg0/pool0'']),
                 (''lvchange'', [''-K'', ''vg0/lv1'', ''-a'', ''y'']),
                 (''mkfs.'', [''/dev/vg0/lv1''])],
        mutex = Unlocked\<rparr>)"
    by code_simp
  note second = formatVolume_command_name [where exec = scripted and kind = "()"
        and vgname = "''vg0''" and lvname = "''lv1''" and fstype = "[]" and ?s0.0 = "boot freshRun"
        and size' = "''1G''" and lvpoolname = "''pool0''"
        and ?out1.0 = "''Logical volume lv1 created.''" and ?s1.0 = ?created
        and ?out2.0 = "[]" and ?s2.0 = ?activated, THEN conjunct2, THEN mp, OF steps]
  from empty ntfs second whole show ?thesis by (intro conjI)
qed

section \<open>Trimming and searching\<close>

text \<open>
  \<open>strings.TrimSpace\<close> cuts bytes of white space from both ends and nothing else, so a string
  that neither begins nor ends with such a byte occurs in the trimmed text exactly when it
  occurs in the text: \<open>removeLVMVolume\<close> finds \<open>not mounted\<close> in what \<open>runCommand\<close> returns
  exactly when \<open>umount\<close> wrote it.
\<close>

lemma Contains_sublist: "Contains s sub \<longleftrightarrow> sublist sub s"
proof (induction s)
  case Nil
  then show ?case by simp
next
  case (Cons c cs)
  show ?case
  proof (cases sub)
    case Nil
    then show ?thesis by simp
  next
    case (Cons x xs)
    then show ?thesis using Cons.IH by (simp add: sublist_Cons_right)
  qed
qed

lemma TrimLeft_suffix: "\<exists>p. s = p @ TrimLeft s \<and> (\<forall>c\<in>set p. spaceByte c)"
proof (induction s rule: TrimLeft.induct)
  case (1 s)
  show ?case
  proof (cases "spaceWidth s = 0")
    case True
    then have "TrimLeft s = s" by (simp add: TrimLeft.simps [of s])
    then show ?thesis by simp
  next
    case False
    then obtain p where p: "drop (spaceWidth s) s = p @ TrimLeft (drop (spaceWidth s) s)"
      "\<forall>c\<in>set p. spaceByte c"
      using "1.IH" by blast
    have t: "TrimLeft s = TrimLeft (drop (spaceWidth s) s)"
      using False by (simp add: TrimLeft.simps [of s])
    have head: "\<forall>c\<in>set (take (spaceWidth s) s). spaceByte c"
    proof (cases s)
      case Nil
      then show ?thesis by simp
    next
      case (Cons c cs)
      show ?thesis
      proof (cases "asciiSpace c")
        case True
        then show ?thesis using Cons by (simp add: spaceWidth_def spaceByte_def)
      next
        case notascii: False
        show ?thesis
        proof (cases "find (\<lambda>u. prefix u s) unicodeSpace")
          case None
          then show ?thesis using Cons notascii False by (simp add: spaceWidth_def)
        next
          case (Some u)
          then have u: "u \<in> set unicodeSpace" "prefix u s"
            by (auto simp: find_Some_iff)
          have "spaceWidth s = length u"
            using Cons notascii Some by (simp add: spaceWidth_def)
          then have "take (spaceWidth s) s = u"
            using u(2) by (auto simp: prefix_def)
          then show ?thesis using u(1) by (auto simp: spaceByte_def)
        qed
      qed
    qed
    have "s = (take (spaceWidth s) s @ p) @ TrimLeft s"
      using p(1) t by (metis append.assoc append_take_drop_id)
    moreover have "\<forall>c\<in>set (take (spaceWidth s) s @ p). spaceByte c"
      using head p(2) by auto
    ultimately show ?thesis by blast
  qed
qed

lemma TrimRight_prefix: "\<exists>q. s = TrimRight s @ q \<and> (\<forall>c\<in>set q. spaceByte c)"
proof (induction s rule: TrimRight.induct)
  case (1 s)
  show ?case
  proof (cases "spaceWidthRight s = 0")
    case True
    then have "TrimRight s = s" by (simp add: TrimRight.simps [of s])
    then show ?thesis by simp
  next
    case False
    let ?k = "length s - spaceWidthRight s"
    obtain q where q: "take ?k s = TrimRight (take ?k s) @ q" "\<forall>c\<in>set q. spaceByte c"
      using "1.IH" [OF False] by blast
    have t: "TrimRight s = TrimRight (take ?k s)"
      using False by (simp add: TrimRight.simps [of s])
    have tail: "\<forall>c\<in>set (drop ?k s). spaceByte c"
    proof (cases "rev s")
      case Nil
      then show ?thesis by simp
    next
      case (Cons c cs)
      then have s: "s = rev cs @ [c]" by (metis rev.simps(2) rev_rev_ident)
      show ?thesis
      proof (cases "asciiSpace c")
        case True
        then have "spaceWidthRight s = 1" using Cons by (simp add: spaceWidthRight_def)
        then show ?thesis using True s by (simp add: spaceByte_def)
      next
        case notascii: False
        show ?thesis
        proof (cases "find (\<lambda>u. suffix u s) unicodeSpace")
          case None
          then show ?thesis using Cons notascii False by (simp add: spaceWidthRight_def)
        next
          case (Some u)
          then have u: "u \<in> set unicodeSpace" "suffix u s"
            by (auto simp: find_Some_iff)
          have "spaceWidthRight s = length u"
            using Cons notascii Some by (simp add: spaceWidthRight_def)
          then have "drop ?k s = u"
            using u(2) by (auto simp: suffix_def)
          then show ?thesis using u(1) by (auto simp: spaceByte_def)
        qed
      qed
    qed
    have "s = TrimRight s @ (q @ drop ?k s)"
      using q(1) t by (metis append.assoc append_take_drop_id)
    moreover have "\<forall>c\<in>set (q @ drop ?k s). spaceByte c"
      using tail q(2) by auto
    ultimately show ?thesis by blast
  qed
qed

lemma sublist_drop_spaces:
  assumes "sublist sub (p @ t)" "sub \<noteq> []" "\<not> spaceByte (hd sub)" "\<forall>c\<in>set p. spaceByte c"
  shows "sublist sub t"
proof -
  obtain a b where ab: "p @ t = a @ sub @ b" using assms(1) by (auto simp: sublist_def)
  then consider (inside) us where "p = a @ us" "us @ t = sub @ b"
    | (after) us where "p @ us = a" "t = us @ sub @ b"
    by (auto simp: append_eq_append_conv2)
  then show ?thesis
  proof cases
    case inside
    show ?thesis
    proof (cases us)
      case Nil
      then show ?thesis using inside by (auto simp: sublist_def)
    next
      case (Cons u us')
      then have "hd sub = u" using inside(2) assms(2) by (cases sub) auto
      moreover have "u \<in> set p" using inside(1) Cons by simp
      ultimately show ?thesis using assms(3,4) by blast
    qed
  next
    case after
    then show ?thesis by (auto simp: sublist_def)
  qed
qed

lemma sublist_drop_spaces_right:
  assumes "sublist sub (t @ q)" "sub \<noteq> []" "\<not> spaceByte (last sub)" "\<forall>c\<in>set q. spaceByte c"
  shows "sublist sub t"
proof -
  have "sublist (rev sub) (rev q @ rev t)"
    using assms(1) by (metis rev_append sublist_rev)
  moreover have "hd (rev sub) = last sub" using assms(2) by (simp add: hd_rev)
  ultimately have "sublist (rev sub) (rev t)"
    using assms(2,3,4) by (intro sublist_drop_spaces [of "rev sub" "rev q" "rev t"]) auto
  then show ?thesis by (metis rev_rev_ident sublist_rev)
qed

lemma Contains_TrimSpace:
  assumes "sub \<noteq> []" "\<not> spaceByte (hd sub)" "\<not> spaceByte (last sub)"
  shows "Contains (TrimSpace s) sub \<longleftrightarrow> Contains s sub"
proof -
  obtain p where p: "s = p @ TrimLeft s" "\<forall>c\<in>set p. spaceByte c"
    using TrimLeft_suffix by blast
  obtain q where q: "TrimLeft s = TrimSpace s @ q" "\<forall>c\<in>set q. spaceByte c"
    unfolding TrimSpace_def using TrimRight_prefix by blast
  have "sublist sub (TrimSpace s)" if "sublist sub s"
  proof -
    have "sublist sub (TrimLeft s)"
      using that p assms by (metis sublist_drop_spaces)
    then show ?thesis
      using q assms by (metis sublist_drop_spaces_right)
  qed
  moreover have "sublist sub s" if "sublist sub (TrimSpace s)"
  proof -
    have "sublist (TrimSpace s) s"
      using p(1) q(1) by (metis sublist_appendI)
    with that show ?thesis by (rule sublist_order.order_trans)
  qed
  ultimately show ?thesis by (auto simp: Contains_sublist)
qed

lemma not_spaceByte_n: "\<not> spaceByte (CHR ''n'')" "\<not> spaceByte (CHR ''d'')"
  by (simp_all add: spaceByte_def asciiSpace_def unicodeSpace_def)

lemma Contains_TrimSpace_not_mounted:
  "Contains (TrimSpace s) ''not mounted'' \<longleftrightarrow> Contains s ''not mounted''"
  by (rule Contains_TrimSpace) (simp_all add: not_spaceByte_n)

section \<open>Volume removal\<close>

text \<open>
  Claim C3, as amended. In the first listing, when \<open>umount\<close> has failed with an output that
  contains \<open>not mounted\<close>, \<open>removeLVMVolume\<close> goes on to \<open>lvremove\<close> and returns what it returns;
  when \<open>umount\<close> has failed with any other output, it returns the error under the message
  \<open>Unable to unmount volume\<close>, and the ten \<open>umount\<close> attempts are all that was started. In the
  second listing every failure of \<open>blkdeactivate\<close> is returned under that message, with nothing
  started after its ten attempts, whatever the output. The path handed to either tool is the join
  of \<open>/dev\<close>, the group and the volume, which is \<open>/dev/<group>/<volume>\<close> when both names are path
  elements. The output searched is the one \<open>runCommand\<close> returns, the trimmed one; it contains
  \<open>not mounted\<close> exactly when the untrimmed one does.
\<close>

theorem removeLVMVolume_unmount_failure:
  fixes exec :: "'w exec"
  assumes "upath = filepath_Join [''/dev'', vgname, lvname]"
  shows
    "(runCommand exec ''umount'' [''--lazy'', ''--force'', ''--all-targets'', upath] s
          = ((outA, Some errA), sA)
        \<and> Contains outA ''not mounted'' \<longrightarrow>
        removeLVMVolume exec Unlocked lvname vgname s =
          Some (runCommand exec ''lvremove'' [''-y'', vgname @ ''/'' @ lvname] sA)
        \<and> (\<exists>n. 1 \<le> n
            \<and> spawned sA (snd (runCommand exec ''lvremove'' [''-y'', vgname @ ''/'' @ lvname] sA)) =
                replicate n (''lvremove'', [''-y'', vgname @ ''/'' @ lvname])))
    \<and> (runCommand exec ''umount'' [''--lazy'', ''--force'', ''--all-targets'', upath] s
          = ((outB, Some errB), sB)
        \<and> \<not> Contains outB ''not mounted'' \<longrightarrow>
        removeLVMVolume exec Unlocked lvname vgname s =
          Some ((outB, Some (WithMessage errB ''Unable to unmount volume'')), sB)
        \<and> spawned s sB = replicate 10 (''umount'', [''--lazy'', ''--force'', ''--all-targets'', upath]))
    \<and> (runCommand_2 exec ''blkdeactivate'' [''-u'', upath] s = Some ((outC, Some errC), sC) \<longrightarrow>
        removeLVMVolume_2 exec lvname vgname s =
          Some ((outC, Some (WithMessage errC ''Unable to unmount volume'')), sC)
        \<and> spawned s sC = replicate 10 (''blkdeactivate'', [''-u'', upath]))
    \<and> (pathElem vgname \<and> pathElem lvname \<longrightarrow> upath = ''/dev/'' @ vgname @ ''/'' @ lvname)
    \<and> (Contains (TrimSpace raw) ''not mounted'' \<longleftrightarrow> Contains raw ''not mounted'')"
proof (intro conjI impI)
  assume h: "runCommand exec ''umount'' [''--lazy'', ''--force'', ''--all-targets'', upath] s
          = ((outA, Some errA), sA)
        \<and> Contains outA ''not mounted''"
  show "removeLVMVolume exec Unlocked lvname vgname s =
          Some (runCommand exec ''lvremove'' [''-y'', vgname @ ''/'' @ lvname] sA)"
    using h by (simp add: removeLVMVolume_def assms)
  obtain r s' where r: "runCommand exec ''lvremove'' [''-y'', vgname @ ''/'' @ lvname] sA = (r, s')"
    by (metis surj_pair)
  from runCommand_procs [OF r]
  show "\<exists>n. 1 \<le> n
      \<and> spawned sA (snd (runCommand exec ''lvremove'' [''-y'', vgname @ ''/'' @ lvname] sA)) =
          replicate n (''lvremove'', [''-y'', vgname @ ''/'' @ lvname])"
    unfolding r by auto
next
  assume h: "runCommand exec ''umount'' [''--lazy'', ''--force'', ''--all-targets'', upath] s
          = ((outB, Some errB), sB)
        \<and> \<not> Contains outB ''not mounted''"
  show "removeLVMVolume exec Unlocked lvname vgname s =
          Some ((outB, Some (WithMessage errB ''Unable to unmount volume'')), sB)"
    using h by (simp add: removeLVMVolume_def assms)
  show "spawned s sB = replicate 10 (''umount'', [''--lazy'', ''--force'', ''--all-targets'', upath])"
    using h [THEN conjunct1] by (rule runCommand_failed)
next
  assume h: "runCommand_2 exec ''blkdeactivate'' [''-u'', upath] s = Some ((outC, Some errC), sC)"
  show "removeLVMVolume_2 exec lvname vgname s =
          Some ((outC, Some (WithMessage errC ''Unable to unmount volume'')), sC)"
    using h by (simp add: removeLVMVolume_2_def assms)
  show "spawned s sC = replicate 10 (''blkdeactivate'', [''-u'', upath])"
    using h by (rule runCommand_2_failed)
next
  assume "pathElem vgname \<and> pathElem lvname"
  then show "upath = ''/dev/'' @ vgname @ ''/'' @ lvname"
    by (simp add: assms devpath)
next
  show "Contains (TrimSpace raw) ''not mounted'' \<longleftrightarrow> Contains raw ''not mounted''"
    by (rule Contains_TrimSpace_not_mounted)
qed

text \<open>
  Claim C3 as it is written fails twice. In the second listing an output with \<open>not mounted\<close> in it
  does not save the removal: the error comes back wrapped and \<open>lvremove\<close> is never started. And
  with an empty group name the path handed to \<open>umount\<close> is \<open>/dev/lv1\<close>.
\<close>

theorem removeLVMVolume_2_not_mounted_aborts:
  "removeLVMVolume_2 scripted ''lv1'' ''vg0'' (boot notMounted) =
     Some ((''umount: /dev/vg0/lv1: not mounted.'',
            Some (WithMessage (CmdError ''exit status 32'') ''Unable to unmount volume'')),
       \<lparr>world = [(''  Logical volume lv1 successfully removed'', None)],
        procs = replicate 10 (''blkdeactivate'', [''-u'', ''/dev/vg0/lv1'']),
        mutex = Unlocked\<rparr>)
   \<and> Contains ''umount: /dev/vg0/lv1: not mounted.'' ''not mounted''
   \<and> removeLVMVolume scripted Unlocked ''lv1'' [] (boot notMounted) =
     Some ((''Logical volume lv1 successfully removed'', None),
       \<lparr>world = [],
        procs = replicate 10 (''umount'', [''--lazy'', ''--force'', ''--all-targets'', ''/dev/lv1''])
                @ [(''lvremove'', [''-y'', ''/lv1''])],
        mutex = Unlocked\<rparr>)
   \<and> ''/dev/lv1'' \<noteq> ''/dev/'' @ [] @ ''/'' @ ''lv1''"
  by code_simp

theorem removeLVMVolume_unmount_failure_witness:
  "removeLVMVolume scripted Unlocked ''lv1'' ''vg0'' (boot notMounted) =
     Some ((''Logical volume lv1 successfully removed'', None),
       \<lparr>world = [],
        procs = replicate 10 (''umount'', [''--lazy'', ''--force'', ''--all-targets'', ''/dev/vg0/lv1''])
                @ [(''lvremove'', [''-y'', ''vg0/lv1''])],
        mutex = Unlocked\<rparr>)
   \<and> removeLVMVolume scripted Unlocked ''lv1'' ''vg0'' (boot targetBusy) =
     Some ((''umount: /dev/vg0/lv1: target is busy.'',
            Some (WithMessage (CmdError ''exit status 32'') ''Unable to unmount volume'')),
       \<lparr>world = [],
        procs = replicate 10 (''umount'', [''--lazy'', ''--force'', ''--all-targets'', ''/dev/vg0/lv1'']),
        mutex = Unlocked\<rparr>)
   \<and> removeLVMVolume_2 scripted ''lv1'' ''vg0'' (boot targetBusy) =
     Some ((''umount: /dev/vg0/lv1: target is busy.'',
            Some (WithMessage (CmdError ''exit status 32'') ''Unable to unmount volume'')),
       \<lparr>world = [],
        procs = replicate 10 (''blkdeactivate'', [''-u'', ''/dev/vg0/lv1'']),
        mutex = Unlocked\<rparr>)
   \<and> filepath_Join [''/dev'', ''vg0'', ''lv1''] = ''/dev/vg0/lv1''"
proof -
  let ?uargs = "[''--lazy'', ''--force'', ''--all-targets'', ''/dev/vg0/lv1'']"
  let ?unmounted = "\<lparr>world = [(''  Logical volume lv1 successfully removed'', None)],
        procs = replicate 10 (''umount'', ?uargs), mutex = Unlocked\<rparr>"
  have upath: "''/dev/vg0/lv1'' = filepath_Join [''/dev'', ''vg0'', ''lv1'']"
    by code_simp
  note rm = removeLVMVolume_unmount_failure [OF upath, where exec = scripted]
  have names: "pathElem ''vg0'' \<and> pathElem ''lv1''"
    by (simp add: pathElem_def)
  have u1: "runCommand scripted ''umount'' ?uargs (boot notMounted) =
      ((''umount: /dev/vg0/lv1: not mounted.'', Some (CmdError ''exit status 32'')), ?unmounted)
    \<and> Contains ''umount: /dev/vg0/lv1: not mounted.'' ''not mounted''"
    by code_simp
  have r1: "runCommand scripted ''lvremove'' [''-y'', ''vg0'' @ ''/'' @ ''lv1''] ?unmounted =
      ((''Logical volume lv1 successfully removed'', None),
       \<lparr>world = [],
        procs = replicate 10 (''umount'', ?uargs) @ [(''lvremove'', [''-y'', ''vg0/lv1''])],
        mutex = Unlocked\<rparr>)"
    by code_simp
  have one: "removeLVMVolume scripted Unlocked ''lv1'' ''vg0'' (boot notMounted) =
     Some ((''Logical volume lv1 successfully removed'', None),
       \<lparr>world = [],
        procs = replicate 10 (''umount'', ?uargs) @ [(''lvremove'', [''-y'', ''vg0/lv1''])],
        mutex = Unlocked\<rparr>)"
    using rm [THEN conjunct1, THEN mp, OF u1, THEN conjunct1] unfolding r1 .
  have u2: "runCommand scripted ''umount'' ?uargs (boot targetBusy) =
      ((''umount: /dev/vg0/lv1: target is busy.'', Some (CmdError ''exit status 32'')),
       \<lparr>world = [], procs = replicate 10 (''umount'', ?uargs), mutex = Unlocked\<rparr>)
    \<and> \<not> Contains ''umount: /dev/vg0/lv1: target is busy.'' ''not mounted''"
    by code_simp
  have two: "removeLVMVolume scripted Unlocked ''lv1'' ''vg0'' (boot targetBusy) =
     Some ((''umount: /dev/vg0/lv1: target is busy.'',
            Some (WithMessage (CmdError ''exit status 32'') ''Unable to unmount volume'')),
       \<lparr>world = [], procs = replicate 10 (''umount'', ?uargs), mutex = Unlocked\<rparr>)"
    using rm [THEN conjunct2, THEN conjunct1, THEN mp, OF u2] by (rule conjunct1)
  have u3: "runCommand_2 scripted ''blkdeactivate'' [''-u'', ''/dev/vg0/lv1''] (boot targetBusy) =
      Some ((''umount: /dev/vg0/lv1: target is busy.'', Some (CmdError ''exit status 32'')),
       \<lparr>world = [], procs = replicate 10 (''blkdeactivate'', [''-u'', ''/dev/vg0/lv1'']),
        mutex = Unlocked\<rparr>)"
    by code_simp
  have three: "removeLVMVolume_2 scripted ''lv1'' ''vg0'' (boot targetBusy) =
     Some ((''umount: /dev/vg0/lv1: target is busy.'',
            Some (WithMessage (CmdError ''exit status 32'') ''Unable to unmount volume'')),
       \<lparr>world = [], procs = replicate 10 (''blkdeactivate'', [''-u'', ''/dev/vg0/lv1'']),
        mutex = Unlocked\<rparr>)"
    using rm [THEN conjunct2, THEN conjunct2, THEN conjunct1, THEN mp, OF u3] by (rule conjunct1)
  have four: "filepath_Join [''/dev'', ''vg0'', ''lv1''] = ''/dev/vg0/lv1''"
    using rm [THEN conjunct2, THEN conjunct2, THEN conjunct2, THEN conjunct1, THEN mp, OF names] upath
    by simp
  from one two three four show ?thesis by (intro conjI)
qed

end
